(* ===== verification/Prelude.thy ===== *)
theory Prelude
  imports Complex_Main "HOL-Library.Word" "HOL-Library.Multiset"
begin

text \<open>
  Shared vocabulary of the development. A JavaScript string is a sequence of UTF-16 code
  units, so it is modelled as a list of 16-bit words (\<open>jsstr\<close>); \<open>js\<close> turns an
  ASCII literal of the source into such a list. A JavaScript statement either completes
  normally with a value or throws; both leave the state behind, since side effects that
  happened before a \<open>throw\<close> persist. This is the type \<open>completion\<close>. The named
  collection \<open>page_defs\<close> gathers the definitions of the DOM helper operations that the
  handler proofs unfold.
\<close>

named_theorems page_defs "definitions of the DOM helper operations of script.js"

type_synonym jsstr = "16 word list"

definition js :: "string \<Rightarrow> jsstr" where
  "js s = map (\<lambda>c. of_nat (of_char c)) s"

datatype ('v, 's) completion = Normal 'v 's | Throw 's

primrec completion_state :: "('v, 's) completion \<Rightarrow> 's" where
  "completion_state (Normal v s) = s"
| "completion_state (Throw s) = s"

subsection \<open>Literal strings\<close>

lemma js_Nil [simp]: "js [] = []"
  by (simp add: js_def)

lemma js_Cons [simp]: "js (c # s) = of_nat (of_char c) # js s"
  by (simp add: js_def)

lemma js_append [simp]: "js (s @ t) = js s @ js t"
  by (simp add: js_def)

lemma length_js [simp]: "length (js s) = length s"
  by (simp add: js_def)

subsection \<open>Lists\<close>

lemma foldl_add_sum_list: "foldl (\<lambda>acc x. acc + f x) a xs = a + sum_list (map f xs)"
  for a :: "'b::comm_monoid_add"
  by (induction xs arbitrary: a) (simp_all add: add.assoc)

lemma sum_list_mset_eq:
  fixes f :: "'a \<Rightarrow> 'b::comm_monoid_add"
  assumes "mset xs = mset ys"
  shows "sum_list (map f xs) = sum_list (map f ys)"
proof -
  have "sum_list (map f xs) = sum_mset (image_mset f (mset xs))"
    by (simp flip: sum_mset_sum_list)
  also have "\<dots> = sum_list (map f ys)"
    by (simp add: assms flip: sum_mset_sum_list)
  finally show ?thesis .
qed

lemma nth_enumerate_map:
  "i < length xs \<Longrightarrow> map g (enumerate n xs) ! i = g (n + i, xs ! i)"
  by (simp add: nth_enumerate_eq)

lemma abs_sum_list_diff_le:
  fixes f g :: "'a \<Rightarrow> rat"
  assumes "\<forall>x\<in>set xs. \<bar>f x - g x\<bar> \<le> e"
  shows "\<bar>sum_list (map f xs) - sum_list (map g xs)\<bar> \<le> of_nat (length xs) * e"
  using assms
proof (induction xs)
  case Nil
  then show ?case by simp
next
  case (Cons x xs)
  then have "\<bar>f x - g x\<bar> \<le> e" and "\<bar>sum_list (map f xs) - sum_list (map g xs)\<bar> \<le> of_nat (length xs) * e"
    by simp_all
  then show ?case by (simp add: algebra_simps)
qed

end
