(* ===== verification/JsBuiltins.thy ===== *)
theory JsBuiltins
  imports Prelude
begin

text \<open>
  The ECMAScript library functions that script.js calls, modelled from the ECMAScript
  specification (they are not code of the repository):
  \<^item> \<open>String.prototype.trim\<close> (\<open>js_trim\<close>): strips the WhiteSpace and LineTerminator
    code units at both ends;
  \<^item> \<open>String.prototype.replace\<close> with a string pattern (\<open>replace_first\<close>): replaces the
    first occurrence only; the replacement strings of the script contain no \<open>$\<close>
    patterns, so the replacement is taken literally;
  \<^item> conversion of a non-negative integer to its decimal string (\<open>decimal\<close>,
    \<open>int_to_jsstr\<close>), as template literals \<open>${n}\<close> do;
  \<^item> division and multiplication of numbers (\<open>js_div\<close>, \<open>js_mul\<close>) with the
    IEEE results NaN and the infinities on division by zero, and
    \<open>Number.prototype.toFixed\<close> (\<open>js_toFixed\<close>);
  \<^item> \<open>Array.prototype.sort\<close> with a comparator (\<open>js_sort\<close>), a stable sort, as
    ECMAScript requires since 2019.
  Finite numbers are exact rationals: the rounding of IEEE doubles before \<open>toFixed\<close>
  is not modelled, nor the exponential notation \<open>toFixed\<close> switches to at
  \<open>10^21\<close> (the percentages of the script stay within 0..100, see Table).
\<close>

subsection \<open>String.prototype.trim\<close>

definition is_js_whitespace :: "16 word \<Rightarrow> bool" where
  "is_js_whitespace c \<longleftrightarrow>
     c = 0x09 \<or> c = 0x0B \<or> c = 0x0C \<or> c = 0x20 \<or> c = 0xA0 \<or> c = 0xFEFF \<or>
     c = 0x1680 \<or> (0x2000 \<le> c \<and> c \<le> 0x200A) \<or> c = 0x202F \<or> c = 0x205F \<or> c = 0x3000"

definition is_js_line_terminator :: "16 word \<Rightarrow> bool" where
  "is_js_line_terminator c \<longleftrightarrow> c = 0x0A \<or> c = 0x0D \<or> c = 0x2028 \<or> c = 0x2029"

definition is_trim_space :: "16 word \<Rightarrow> bool" where
  "is_trim_space c \<longleftrightarrow> is_js_whitespace c \<or> is_js_line_terminator c"

definition js_trim :: "jsstr \<Rightarrow> jsstr" where
  "js_trim s = rev (dropWhile is_trim_space (rev (dropWhile is_trim_space s)))"

definition trimmed :: "jsstr \<Rightarrow> bool" where
  "trimmed s \<longleftrightarrow> s = [] \<or> (\<not> is_trim_space (hd s) \<and> \<not> is_trim_space (last s))"

subsection \<open>String.prototype.replace with a string pattern\<close>

fun replace_first :: "jsstr \<Rightarrow> jsstr \<Rightarrow> jsstr \<Rightarrow> jsstr" where
  "replace_first pat rep [] = (if pat = [] then rep else [])"
| "replace_first pat rep (c # s) =
     (if take (length pat) (c # s) = pat then rep @ drop (length pat) (c # s)
      else c # replace_first pat rep s)"

subsection \<open>Numbers as strings\<close>

definition digit_char :: "nat \<Rightarrow> 16 word" where
  "digit_char d = of_nat (48 + d)"

fun decimal :: "nat \<Rightarrow> jsstr" where
  "decimal n = (if n < 10 then [digit_char n] else decimal (n div 10) @ [digit_char (n mod 10)])"

declare decimal.simps [simp del]

definition int_to_jsstr :: "int \<Rightarrow> jsstr" where
  "int_to_jsstr i = (if i < 0 then js ''-'' @ decimal (nat (- i)) else decimal (nat i))"

definition read_decimal :: "jsstr \<Rightarrow> nat" where
  "read_decimal s = foldl (\<lambda>acc c. 10 * acc + (unat c - 48)) 0 s"

subsection \<open>Numbers: division, multiplication, toFixed\<close>

datatype jsnum = Num rat | NaN | PosInf | NegInf

definition js_div :: "rat \<Rightarrow> rat \<Rightarrow> jsnum" where
  "js_div a b =
     (if b \<noteq> 0 then Num (a / b) else if a = 0 then NaN else if 0 < a then PosInf else NegInf)"

fun js_mul :: "jsnum \<Rightarrow> rat \<Rightarrow> jsnum" where
  "js_mul (Num a) k = Num (a * k)"
| "js_mul NaN k = NaN"
| "js_mul PosInf k = (if k = 0 then NaN else if 0 < k then PosInf else NegInf)"
| "js_mul NegInf k = (if k = 0 then NaN else if 0 < k then NegInf else PosInf)"

text \<open>
  \<open>toFixed(f)\<close> on a finite \<open>x \<ge> 0\<close> picks the integer \<open>n\<close> for which
  \<open>n / 10^f - x\<close> is closest to zero, the larger one on a tie: \<open>\<lfloor>x * 10^f + 1/2\<rfloor>\<close>.
  Its digits get a decimal point before the last \<open>f\<close> of them, after padding with
  zeros to at least \<open>f + 1\<close> digits. A negative \<open>x\<close> is formatted as \<open>-x\<close> with a
  leading minus sign.
\<close>

definition fixed_scaled :: "nat \<Rightarrow> rat \<Rightarrow> nat" where
  "fixed_scaled f x = nat \<lfloor>x * 10 ^ f + 1 / 2\<rfloor>"

definition insert_point :: "nat \<Rightarrow> jsstr \<Rightarrow> jsstr" where
  "insert_point f m =
     (if f = 0 then m
      else let m' = replicate (f + 1 - length m) (digit_char 0) @ m; k = length m'
           in take (k - f) m' @ js ''.'' @ drop (k - f) m')"

definition js_toFixed :: "nat \<Rightarrow> jsnum \<Rightarrow> jsstr" where
  "js_toFixed f x =
     (case x of
        NaN \<Rightarrow> js ''NaN''
      | PosInf \<Rightarrow> js ''Infinity''
      | NegInf \<Rightarrow> js ''-Infinity''
      | Num r \<Rightarrow> (if r < 0 then js ''-'' else []) @ insert_point f (decimal (fixed_scaled f \<bar>r\<bar>)))"

subsection \<open>Array.prototype.sort with a comparator\<close>

text \<open>
  A stable insertion sort: an element is placed before the first element it does not
  compare greater than. Under a comparator that is consistent, every stable sort gives
  the same result (see \<open>js_sort_sort_key\<close>), so this fixes the library's behaviour.
\<close>

fun insert_by :: "('a \<Rightarrow> 'a \<Rightarrow> int) \<Rightarrow> 'a \<Rightarrow> 'a list \<Rightarrow> 'a list" where
  "insert_by cmp x [] = [x]"
| "insert_by cmp x (y # ys) = (if cmp x y \<le> 0 then x # y # ys else y # insert_by cmp x ys)"

definition js_sort :: "('a \<Rightarrow> 'a \<Rightarrow> int) \<Rightarrow> 'a list \<Rightarrow> 'a list" where
  "js_sort cmp xs = foldr (insert_by cmp) xs []"

subsection \<open>Lemmas: trim\<close>

lemma dropWhile_last: "dropWhile P xs \<noteq> [] \<Longrightarrow> last (dropWhile P xs) = last xs"
  by (induction xs) auto

lemma dropWhile_hd: "dropWhile P xs \<noteq> [] \<Longrightarrow> \<not> P (hd (dropWhile P xs))"
  using hd_dropWhile by metis

lemma js_trim_trimmed: "trimmed (js_trim s)"
proof -
  let ?t = "dropWhile is_trim_space s"
  let ?v = "dropWhile is_trim_space (rev ?t)"
  have "\<not> is_trim_space (hd (rev ?v)) \<and> \<not> is_trim_space (last (rev ?v))" if ne: "?v \<noteq> []"
  proof
    have "?t \<noteq> []" using ne by (metis Nil_is_rev_conv dropWhile.simps(1))
    then have "\<not> is_trim_space (hd ?t)" by (rule dropWhile_hd)
    moreover have "last ?v = hd ?t"
      using ne dropWhile_last [of is_trim_space "rev ?t"] \<open>?t \<noteq> []\<close> by (simp add: last_rev)
    ultimately show "\<not> is_trim_space (hd (rev ?v))" using ne by (simp add: hd_rev)
    show "\<not> is_trim_space (last (rev ?v))" using ne dropWhile_hd [of is_trim_space "rev ?t"]
      by (simp add: last_rev)
  qed
  then show ?thesis by (auto simp: trimmed_def js_trim_def)
qed

lemma js_trim_id:
  assumes "trimmed s"
  shows "js_trim s = s"
proof -
  have "dropWhile is_trim_space s = s"
    using assms by (auto simp: trimmed_def dropWhile_eq_self_iff)
  moreover have "dropWhile is_trim_space (rev s) = rev s"
    using assms by (auto simp: trimmed_def dropWhile_eq_self_iff hd_rev)
  ultimately show ?thesis by (simp add: js_trim_def)
qed

lemma js_trim_idem: "js_trim (js_trim s) = js_trim s"
  by (rule js_trim_id [OF js_trim_trimmed])

lemma dropWhile_all: "(\<forall>c\<in>set (dropWhile P xs). P c) \<longleftrightarrow> dropWhile P xs = []"
proof
  assume all: "\<forall>c\<in>set (dropWhile P xs). P c"
  show "dropWhile P xs = []"
  proof (rule ccontr)
    assume ne: "dropWhile P xs \<noteq> []"
    then have "hd (dropWhile P xs) \<in> set (dropWhile P xs)" by (rule hd_in_set)
    with all dropWhile_hd [OF ne] show False by blast
  qed
qed (simp del: dropWhile_eq_Nil_conv)

lemma js_trim_Nil_iff: "js_trim s = [] \<longleftrightarrow> (\<forall>c\<in>set s. is_trim_space c)"
proof -
  have "js_trim s = [] \<longleftrightarrow> (\<forall>c\<in>set (dropWhile is_trim_space s). is_trim_space c)"
    by (simp add: js_trim_def dropWhile_eq_Nil_conv)
  also have "\<dots> \<longleftrightarrow> dropWhile is_trim_space s = []"
    by (rule dropWhile_all)
  finally show ?thesis by (simp add: dropWhile_eq_Nil_conv)
qed

lemma js_trim_infix:
  "\<exists>a b. s = a @ js_trim s @ b \<and> (\<forall>c\<in>set a. is_trim_space c) \<and> (\<forall>c\<in>set b. is_trim_space c)"
proof -
  let ?t = "dropWhile is_trim_space s"
  have s: "s = takeWhile is_trim_space s @ ?t" by simp
  have "rev ?t = takeWhile is_trim_space (rev ?t) @ dropWhile is_trim_space (rev ?t)" by simp
  then have t: "?t = js_trim s @ rev (takeWhile is_trim_space (rev ?t))"
    by (metis js_trim_def rev_append rev_rev_ident)
  show ?thesis
    by (rule exI [of _ "takeWhile is_trim_space s"], rule exI [of _ "rev (takeWhile is_trim_space (rev ?t))"])
      (metis s t set_rev set_takeWhileD)
qed

subsection \<open>Lemmas: decimal strings, toFixed, sort\<close>

lemma unat_digit_char [simp]: "unat (digit_char d) = 48 + d" if "d < 10"
proof -
  have "unat (word_of_nat (48 + d) :: 16 word) = (48 + d) mod 2 ^ LENGTH(16)"
    by (rule unat_of_nat)
  then show ?thesis using that by (simp add: digit_char_def del: of_nat_add)
qed

lemma read_decimal_snoc: "read_decimal (xs @ [c]) = 10 * read_decimal xs + (unat c - 48)"
  by (simp add: read_decimal_def)

lemma read_decimal_decimal: "read_decimal (decimal n) = n"
proof (induction n rule: decimal.induct)
  case (1 n)
  show ?case
  proof (cases "n < 10")
    case True
    then show ?thesis by (simp add: decimal.simps [of n] read_decimal_def)
  next
    case False
    with "1.IH" show ?thesis by (simp add: decimal.simps [of n] read_decimal_snoc)
  qed
qed

lemma decimal_digits: "c \<in> set (decimal n) \<Longrightarrow> 48 \<le> unat c \<and> unat c \<le> 57"
proof (induction n rule: decimal.induct)
  case (1 n)
  then show ?case
    by (cases "n < 10") (auto simp: decimal.simps [of n])
qed

lemma decimal_ne [simp]: "decimal n \<noteq> []"
  by (simp add: decimal.simps [of n])

lemma read_decimal_zeros: "read_decimal (replicate k (digit_char 0) @ m) = read_decimal m"
proof -
  have "foldl (\<lambda>acc c. 10 * acc + (unat c - 48)) 0 (replicate k (digit_char 0)) = 0"
    by (induction k) simp_all
  then show ?thesis by (simp add: read_decimal_def)
qed

lemma point_not_digit: "c \<in> set (decimal n) \<Longrightarrow> c \<noteq> 0x2E"
  using decimal_digits [of c n] by auto

lemma filter_take_point_drop:
  "\<not> P c \<Longrightarrow> filter P (take a xs @ c # drop a xs) = filter P xs"
proof -
  assume c: "\<not> P c"
  have "filter P (take a xs @ c # drop a xs) = filter P (take a xs) @ filter P (drop a xs)"
    using c by simp
  also have "\<dots> = filter P xs"
    by (simp only: filter_append [symmetric] append_take_drop_id)
  finally show ?thesis .
qed

lemma filter_insert_point:
  assumes "\<forall>c\<in>set m. c \<noteq> 0x2E"
  shows "\<exists>k. filter (\<lambda>c. c \<noteq> 0x2E) (insert_point f m) = replicate k (digit_char 0) @ m"
proof -
  have z: "digit_char 0 \<noteq> 0x2E" by (simp add: digit_char_def)
  have m: "filter (\<lambda>c. c \<noteq> 0x2E) m = m" using assms by (simp add: filter_id_conv)
  define m' where "m' = replicate (f + 1 - length m) (digit_char 0) @ m"
  show ?thesis
  proof (cases "f = 0")
    case True
    with m show ?thesis by (intro exI [of _ 0]) (simp add: insert_point_def)
  next
    case False
    then have "insert_point f m = take (length m' - f) m' @ 0x2E # drop (length m' - f) m'"
      by (simp add: insert_point_def m'_def Let_def)
    then have "filter (\<lambda>c. c \<noteq> 0x2E) (insert_point f m) = filter (\<lambda>c. c \<noteq> 0x2E) m'"
      by (simp only: filter_take_point_drop)
    also have "\<dots> = m'" using m z by (simp add: m'_def)
    finally show ?thesis by (auto simp: m'_def)
  qed
qed

lemma toFixed_roundtrip:
  assumes "0 \<le> r"
  shows "read_decimal (filter (\<lambda>c. c \<noteq> 0x2E) (js_toFixed f (Num r))) = fixed_scaled f r"
proof -
  have "\<forall>c\<in>set (decimal (fixed_scaled f r)). c \<noteq> 0x2E"
    using point_not_digit by blast
  then obtain k where
    "filter (\<lambda>c. c \<noteq> 0x2E) (insert_point f (decimal (fixed_scaled f r))) =
       replicate k (digit_char 0) @ decimal (fixed_scaled f r)"
    using filter_insert_point by blast
  with assms show ?thesis
    by (simp add: js_toFixed_def read_decimal_zeros read_decimal_decimal)
qed

lemma insert_point_shape:
  assumes "0 < f"
  shows "\<exists>a b. insert_point f m = a @ js ''.'' @ b \<and> length b = f \<and> a \<noteq> []"
proof -
  define m' where "m' = replicate (f + 1 - length m) (digit_char 0) @ m"
  have len: "f + 1 \<le> length m'" by (simp add: m'_def)
  have "insert_point f m = take (length m' - f) m' @ js ''.'' @ drop (length m' - f) m'"
    using assms by (simp add: insert_point_def m'_def Let_def)
  moreover have "length (drop (length m' - f) m') = f" using len by simp
  moreover have "take (length m' - f) m' \<noteq> []" using len by auto
  ultimately show ?thesis by blast
qed

lemma fixed_scaled_bounds:
  assumes "0 \<le> x"
  shows "x * 10 ^ f - 1 / 2 < of_nat (fixed_scaled f x) \<and> of_nat (fixed_scaled f x) \<le> x * 10 ^ f + 1 / 2"
proof -
  let ?y = "x * 10 ^ f + 1 / 2"
  have "0 \<le> ?y" using assms by simp
  then have "0 \<le> \<lfloor>?y\<rfloor>" by simp
  then have n: "(of_nat (fixed_scaled f x) :: rat) = of_int \<lfloor>?y\<rfloor>"
    by (simp add: fixed_scaled_def)
  have "of_int \<lfloor>?y\<rfloor> \<le> ?y \<and> ?y < of_int (\<lfloor>?y\<rfloor> + 1)"
    by (rule floor_correct)
  with n show ?thesis by simp
qed

lemma fixed_scaled_nearest:
  assumes "0 \<le> x"
  shows "\<bar>of_nat (fixed_scaled f x) - x * 10 ^ f\<bar> \<le> \<bar>of_int m - x * 10 ^ f\<bar>
    \<and> (\<bar>of_int m - x * 10 ^ f\<bar> = \<bar>of_nat (fixed_scaled f x) - x * 10 ^ f\<bar> \<longrightarrow> m \<le> int (fixed_scaled f x))"
proof -
  let ?n = "int (fixed_scaled f x)" and ?y = "x * 10 ^ f"
  have b: "?y - 1 / 2 < of_int ?n" "of_int ?n \<le> ?y + 1 / 2"
    using fixed_scaled_bounds [OF assms, of f] by simp_all
  consider "m \<le> ?n - 1" | "m = ?n" | "?n + 1 \<le> m" by linarith
  then show ?thesis
  proof cases
    case 1
    then have "(of_int m :: rat) \<le> of_int ?n - 1" by (simp add: of_int_le_iff [symmetric])
    with b show ?thesis by (simp add: abs_if; linarith)
  next
    case 2
    then show ?thesis by simp
  next
    case 3
    then have "(of_int ?n :: rat) + 1 \<le> of_int m" by (simp add: of_int_le_iff [symmetric])
    with b show ?thesis by (simp add: abs_if; linarith)
  qed
qed

lemma insert_by_insort_key:
  "(\<And>x y. cmp x y = f x - f y) \<Longrightarrow> insert_by cmp x ys = insort_key f x ys"
  by (induction ys) auto

lemma js_sort_sort_key:
  "(\<And>x y. cmp x y = f x - f y) \<Longrightarrow> js_sort cmp xs = sort_key f xs"
  by (induction xs) (simp_all add: js_sort_def insert_by_insort_key)

end
