(* ===== verification/Colors.thy ===== *)
theory Colors
  imports JsBuiltins
begin

text \<open>
  The colour palette of script.js: \<open>generateColors(count)\<close> (lines 238--258) and the
  border colours that \<open>displayCharts\<close> derives from it with
  \<open>color.replace('0.8', '1')\<close> (line 96). The \<open>for\<close> loop of \<open>generateColors\<close>
  is the tail-recursive \<open>generateColors_loop\<close> over the loop counter \<open>i\<close> and the array
  \<open>result\<close>; its termination measure is \<open>count - i\<close>. The lemmas show that the loop
  equals a \<open>map\<close> over \<open>[0..<count]\<close> (so it returns exactly \<open>count\<close> colours and
  cycles with period 10), and that two of any nine colours coincide (the palette lists one
  colour twice).
\<close>

definition colors :: "jsstr list" where
  "colors =
     [js ''rgba(102, 126, 234, 0.8)'', js ''rgba(118, 75, 162, 0.8)'',
      js ''rgba(255, 99, 132, 0.8)'', js ''rgba(54, 162, 235, 0.8)'',
      js ''rgba(255, 159, 64, 0.8)'', js ''rgba(75, 192, 192, 0.8)'',
      js ''rgba(255, 205, 86, 0.8)'', js ''rgba(153, 102, 255, 0.8)'',
      js ''rgba(255, 99, 132, 0.8)'', js ''rgba(201, 203, 207, 0.8)'']"

function generateColors_loop :: "nat \<Rightarrow> nat \<Rightarrow> jsstr list \<Rightarrow> jsstr list" where
  "generateColors_loop i count' result =
     (if i < count'
      then generateColors_loop (Suc i) count' (result @ [colors ! (i mod length colors)])
      else result)"
  by pat_completeness auto
termination
  by (relation "measure (\<lambda>(i, count', result). count' - i)") auto

declare generateColors_loop.simps [simp del]

definition generateColors :: "nat \<Rightarrow> jsstr list" where
  "generateColors count' = generateColors_loop 0 count' []"

definition border_color :: "jsstr \<Rightarrow> jsstr" where
  "border_color color = replace_first (js ''0.8'') (js ''1'') color"

lemma length_colors [simp]: "length colors = 10"
  by (simp add: colors_def)

lemma generateColors_loop_map:
  "generateColors_loop i count' result =
     result @ map (\<lambda>j. colors ! (j mod length colors)) [i..<count']"
proof (induction i count' result rule: generateColors_loop.induct)
  case (1 i count' result)
  show ?case
  proof (cases "i < count'")
    case True
    with "1.IH" show ?thesis
      by (simp add: generateColors_loop.simps [of i count' result] upt_conv_Cons)
  next
    case False
    then show ?thesis by (simp add: generateColors_loop.simps [of i count' result])
  qed
qed

lemma length_generateColors [simp]: "length (generateColors count') = count'"
  by (simp add: generateColors_def generateColors_loop_map)

lemma nth_generateColors:
  "i < count' \<Longrightarrow> generateColors count' ! i = colors ! (i mod 10)"
  by (simp add: generateColors_def generateColors_loop_map)

text \<open>
  C12. The loop of \<open>generateColors(count)\<close> terminates and returns the palette entry
  \<open>i mod 10\<close> at every index \<open>i < count\<close>, and nothing else.
\<close>

theorem generateColors_map_upt:
  "generateColors count' = map (\<lambda>i. colors ! (i mod 10)) [0..<count']"
  by (simp add: generateColors_def generateColors_loop_map)

text \<open>
  C26. The palette has ten entries but only nine colours, since \<open>rgba(255, 99, 132, 0.8)\<close>
  is listed twice: from nine words on, two words of a chart get the same colour.
\<close>

theorem generateColors_repeats_before_ten:
  assumes "9 \<le> count'"
  shows "\<not> distinct (generateColors count')"
proof -
  have "generateColors count' ! 2 = generateColors count' ! 8"
    using assms by (simp add: nth_generateColors colors_def)
  moreover have "2 < length (generateColors count')" "8 < length (generateColors count')"
    using assms by simp_all
  moreover have "(2::nat) \<noteq> 8" by simp
  ultimately show ?thesis unfolding distinct_conv_nth by blast
qed

theorem generateColors_repeats_before_ten_witness:
  "9 \<le> (9::nat) \<and> \<not> distinct (generateColors 9)"
  using generateColors_repeats_before_ten [of 9] by simp

end
