(* ===== verification/Binary64.thy ===== *)
theory Binary64
  imports JsBuiltins "HOL-Library.Log_Nat"
begin

text \<open>
  JavaScript numbers are IEEE 754 binary64 values, and every arithmetic operation rounds
  its exact result to the nearest such value, ties to the one with an even last
  significand bit. This theory gives that rounding, \<open>fp_round\<close>, executable on
  rationals: the binade \<open>2^e \<le> |x| < 2^(e+1)\<close> (\<open>binade\<close>, through \<open>bitlen\<close> of
  \<open>Log_Nat\<close>), the spacing \<open>2^(max e (-1022) - 52)\<close> of doubles there (the subnormal
  range included), rounding to the nearest multiple of it with ties to even, and
  \<open>\<plusminus>Infinity\<close> when the result reaches \<open>2^1024\<close>. With it, \<open>fp_div\<close> and \<open>fp_mul\<close>
  are the \<open>/\<close> and \<open>*\<close> of the script on finite operands (division by zero as in
  \<open>js_div\<close>). The lemmas bound the error of one rounding in the normal range by
  \<open>|x| / 2^53\<close>.
\<close>

definition binade :: "rat \<Rightarrow> int" where
  "binade a = (if 1 \<le> a then bitlen \<lfloor>a\<rfloor> - 1 else - bitlen (\<lceil>1 / a\<rceil> - 1))"

definition round_half_even :: "rat \<Rightarrow> int" where
  "round_half_even q =
     (let n = \<lfloor>q\<rfloor>; d = q - of_int n
      in if d < 1 / 2 then n else if 1 / 2 < d then n + 1 else if even n then n else n + 1)"

definition fp_round :: "rat \<Rightarrow> jsnum" where
  "fp_round x =
     (if x = 0 then Num 0
      else let a = \<bar>x\<bar>; u = power_int 2 (max (binade a) (-1022) - 52);
               r = of_int (round_half_even (a / u)) * u
           in if power_int 2 1024 \<le> r then (if 0 < x then PosInf else NegInf) else Num (sgn x * r))"

definition fp_div :: "rat \<Rightarrow> rat \<Rightarrow> jsnum" where
  "fp_div a b = (if b = 0 then js_div a b else fp_round (a / b))"

fun fp_mul :: "jsnum \<Rightarrow> rat \<Rightarrow> jsnum" where
  "fp_mul (Num a) k = fp_round (a * k)"
| "fp_mul x k = js_mul x k"

subsection \<open>Lemmas\<close>

lemma pow2_le_of_int: "(2::int) ^ k \<le> n \<Longrightarrow> (2::rat) ^ k \<le> of_int n"
proof -
  assume "(2::int) ^ k \<le> n"
  then have "(of_int ((2::int) ^ k) :: rat) \<le> of_int n" by (simp only: of_int_le_iff)
  then show ?thesis by simp
qed

lemma of_int_lt_pow2: "n < (2::int) ^ k \<Longrightarrow> of_int n + 1 \<le> (2::rat) ^ k"
proof -
  assume "n < (2::int) ^ k"
  then have "n + 1 \<le> (2::int) ^ k" by simp
  then have "(of_int (n + 1) :: rat) \<le> of_int ((2::int) ^ k)" by (simp only: of_int_le_iff)
  then show ?thesis by simp
qed

lemma binade_bounds:
  assumes "0 < a"
  shows "power_int 2 (binade a) \<le> a \<and> a < power_int 2 (binade a + 1)"
proof (cases "1 \<le> a")
  case True
  let ?n = "\<lfloor>a\<rfloor>"
  have n1: "1 \<le> ?n" using True by simp
  then have b: "2 ^ nat (bitlen ?n - 1) \<le> ?n" "?n < 2 ^ nat (bitlen ?n)"
    using bitlen_bounds [of ?n] by simp_all
  have k: "1 \<le> bitlen ?n"
    using b(2) n1 bitlen_nonneg [of ?n] by (cases "bitlen ?n = 0") auto
  have e: "binade a = bitlen ?n - 1" using True by (simp add: binade_def)
  have p1: "power_int (2::rat) (bitlen ?n - 1) = 2 ^ nat (bitlen ?n - 1)"
    using k by (simp add: power_int_def)
  have p2: "power_int (2::rat) (bitlen ?n) = 2 ^ nat (bitlen ?n)"
    using k by (simp add: power_int_def)
  have lo: "(2::rat) ^ nat (bitlen ?n - 1) \<le> a"
  proof -
    have "(2::rat) ^ nat (bitlen ?n - 1) \<le> of_int ?n" using b(1) by (rule pow2_le_of_int)
    moreover have "of_int ?n \<le> a" by simp
    ultimately show ?thesis by linarith
  qed
  have hi: "a < (2::rat) ^ nat (bitlen ?n)"
  proof -
    have "of_int ?n + 1 \<le> (2::rat) ^ nat (bitlen ?n)" using b(2) by (rule of_int_lt_pow2)
    moreover have "a < of_int ?n + 1" by linarith
    ultimately show ?thesis by linarith
  qed
  show ?thesis using e p1 p2 lo hi by simp
next
  case False
  let ?m = "\<lceil>1 / a\<rceil> - 1"
  have y: "1 < 1 / a" using False assms by simp
  then have m1: "1 \<le> ?m" by linarith
  then have b: "2 ^ nat (bitlen ?m - 1) \<le> ?m" "?m < 2 ^ nat (bitlen ?m)"
    using bitlen_bounds [of ?m] by simp_all
  have k: "1 \<le> bitlen ?m"
    using b(2) m1 bitlen_nonneg [of ?m] by (cases "bitlen ?m = 0") auto
  have e: "binade a = - bitlen ?m" using False by (simp add: binade_def)
  have lo: "(2::rat) ^ nat (bitlen ?m - 1) < 1 / a"
  proof -
    have "(2::rat) ^ nat (bitlen ?m - 1) \<le> of_int ?m"
      using b(1) by (rule pow2_le_of_int)
    moreover have "of_int ?m < 1 / a" by linarith
    ultimately show ?thesis by linarith
  qed
  have hi: "1 / a \<le> (2::rat) ^ nat (bitlen ?m)"
  proof -
    have "of_int ?m + 1 \<le> (2::rat) ^ nat (bitlen ?m)"
      using b(2) by (rule of_int_lt_pow2)
    moreover have "1 / a \<le> of_int ?m + 1" by linarith
    ultimately show ?thesis by linarith
  qed
  have p1: "power_int (2::rat) (- bitlen ?m) = 1 / 2 ^ nat (bitlen ?m)"
    using k by (simp add: power_int_def field_simps)
  have p2: "power_int (2::rat) (- bitlen ?m + 1) = 1 / 2 ^ nat (bitlen ?m - 1)"
    using k by (simp add: power_int_def field_simps nat_diff_distrib)
  have "1 / 2 ^ nat (bitlen ?m) \<le> a" using hi assms by (simp add: field_simps)
  moreover have "a < 1 / 2 ^ nat (bitlen ?m - 1)" using lo assms by (simp add: field_simps)
  ultimately show ?thesis using e p1 p2 by simp
qed

lemma round_half_even_close: "\<bar>of_int (round_half_even q) - q\<bar> \<le> 1 / 2"
proof -
  have "of_int \<lfloor>q\<rfloor> \<le> q" "q < of_int \<lfloor>q\<rfloor> + 1" by linarith+
  then show ?thesis by (auto simp: round_half_even_def Let_def abs_if; linarith)
qed

lemma binade_normal:
  assumes "power_int 2 (-1022) \<le> x"
  shows "-1022 \<le> binade x"
proof (rule ccontr)
  assume "\<not> -1022 \<le> binade x"
  then have "power_int (2::rat) (binade x + 1) \<le> power_int 2 (-1022)"
    by (intro power_int_increasing) simp_all
  moreover have "0 < x" using assms by (rule order.strict_trans2 [rotated]) simp
  ultimately show False using binade_bounds [of x] assms by simp
qed

lemma fp_round_normal:
  assumes "power_int 2 (-1022) \<le> x" "x < power_int 2 1023"
  shows "\<exists>r. fp_round x = Num r \<and> \<bar>r - x\<bar> \<le> x / 2 ^ 53"
proof -
  let ?e = "binade x"
  let ?u = "power_int (2::rat) (?e - 52)"
  let ?r = "of_int (round_half_even (x / ?u)) * ?u"
  have x0: "0 < x" using assms(1) by (rule order.strict_trans2 [rotated]) simp
  have b: "power_int 2 ?e \<le> x" "x < power_int 2 (?e + 1)" using binade_bounds [OF x0] by simp_all
  have m: "max ?e (-1022) = ?e" using binade_normal [OF assms(1)] by simp
  have u0: "0 < ?u" by simp
  have u: "?u = power_int 2 ?e / 2 ^ 52" by (simp add: power_int_diff)
  have "?r - x = (of_int (round_half_even (x / ?u)) - x / ?u) * ?u"
    using u0 by (simp add: field_simps)
  then have "\<bar>?r - x\<bar> = \<bar>of_int (round_half_even (x / ?u)) - x / ?u\<bar> * ?u"
    using u0 by (simp add: abs_mult)
  also have "\<dots> \<le> 1 / 2 * ?u" using u0 round_half_even_close by (intro mult_right_mono) simp_all
  also have "\<dots> \<le> x / 2 ^ 53" using b(1) u by simp
  finally have err: "\<bar>?r - x\<bar> \<le> x / 2 ^ 53" .
  have "?r - x \<le> x / 2 ^ 53" using err by (rule order.trans [OF abs_ge_self])
  moreover have "x / 2 ^ 53 < x" using x0 by simp
  ultimately have "?r < 2 * x" by linarith
  also have "2 * x < power_int 2 1024" using assms(2) by simp
  finally have "\<not> power_int 2 1024 \<le> ?r" by simp
  then have "fp_round x = Num ?r" using x0 m by (simp add: fp_round_def Let_def)
  with err show ?thesis by blast
qed

lemma fp_normal_range:
  assumes "1 / 2 ^ 54 \<le> x" "x \<le> 2 ^ 10"
  shows "power_int 2 (-1022) \<le> x \<and> x < power_int (2::rat) 1023"
proof -
  have "power_int (2::rat) (-1022) \<le> 1 / 2 ^ 54" by (simp add: power_int_minus)
  moreover have "(2::rat) ^ 10 < power_int 2 1023" by simp
  ultimately show ?thesis using assms by linarith
qed

end
