(* ===== verification/Table.thy ===== *)
theory Table
  imports Binary64
begin

text \<open>
  The ranked frequency table, \<open>displayTable(wordsData)\<close> of script.js (lines 218--236).
  A \<open>{word, count}\<close> object of the server's \<open>words_data\<close> is the record
  \<open>word_count\<close> (its field \<open>count\<close> is \<open>count'\<close>, since \<open>count\<close> names the
  multiplicity of a multiset). \<open>displayTable\<close> returns the array as it is after the
  in-place \<open>sort\<close> and the cells of the rows written to \<open>tableBody.innerHTML\<close>: rank,
  word markup, count, and the percentage with two decimals. The percentage cell,
  \<open>table_percentage\<close> (line 226), divides and multiplies in binary64 as the browser
  does (theory Binary64). \<open>spec_percentage\<close> is not code: it is the specification's
  value (section 4.4), the exact \<open>count / total * 100\<close> rounded to two decimals, against
  which theory Double measures the cell. The lemmas here show that the sort is the stable
  sort by descending count: a permutation, sorted, and stable.
\<close>

record word_count =
  word :: jsstr
  count' :: int

definition table_compare :: "word_count \<Rightarrow> word_count \<Rightarrow> int" where
  "table_compare a b = count' b - count' a"

definition table_total :: "word_count list \<Rightarrow> int" where
  "table_total wordsData = foldl (\<lambda>sum item. sum + count' item) 0 wordsData"

definition table_percentage :: "int \<Rightarrow> word_count \<Rightarrow> jsstr" where
  "table_percentage totalWords item =
     js_toFixed 2 (fp_mul (fp_div (of_int (count' item)) (of_int totalWords)) 100)"

text \<open>The specification's percentage: the exact value, rounded to two decimals.\<close>

definition spec_percentage :: "int \<Rightarrow> word_count \<Rightarrow> jsstr" where
  "spec_percentage totalWords item =
     js_toFixed 2 (js_mul (js_div (of_int (count' item)) (of_int totalWords)) 100)"

definition table_row :: "int \<Rightarrow> nat \<Rightarrow> word_count \<Rightarrow> jsstr list" where
  "table_row totalWords index item =
     [decimal (index + 1),
      js ''<strong>'' @ word item @ js ''</strong>'',
      int_to_jsstr (count' item),
      table_percentage totalWords item @ js ''%'']"

definition displayTable :: "word_count list \<Rightarrow> word_count list \<times> jsstr list list" where
  "displayTable wordsData =
     (let totalWords = table_total wordsData;
          sortedData = js_sort table_compare wordsData
      in (sortedData, map (\<lambda>(index, item). table_row totalWords index item) (enumerate 0 sortedData)))"

text \<open>Reading a rendered percentage cell back as a number of hundredths of a percent.\<close>

definition pct_hundredths :: "jsstr list \<Rightarrow> nat" where
  "pct_hundredths row = read_decimal (filter (\<lambda>c. c \<noteq> 0x2E) (butlast (row ! 3)))"

subsection \<open>The sort\<close>

lemma table_sort_key: "js_sort table_compare xs = sort_key (\<lambda>w. - count' w) xs"
  by (rule js_sort_sort_key) (simp add: table_compare_def)

lemma displayTable_fst: "fst (displayTable d) = sort_key (\<lambda>w. - count' w) d"
  by (simp add: displayTable_def Let_def table_sort_key)

lemma displayTable_rows:
  "snd (displayTable d) = map (\<lambda>(i, item). table_row (table_total d) i item) (enumerate 0 (fst (displayTable d)))"
  by (simp add: displayTable_def Let_def)

lemma table_total_sum: "table_total d = sum_list (map count' d)"
  by (simp add: table_total_def foldl_add_sum_list)

lemma sorted_desc_iff: "sorted (map (\<lambda>w. - count' w) xs) \<longleftrightarrow> sorted_wrt (\<lambda>a b. count' b \<le> count' a) xs"
  by (simp add: sorted_map)

lemma displayTable_sorted: "sorted_wrt (\<lambda>a b. count' b \<le> count' a) (fst (displayTable d))"
  using sorted_sort_key [of "\<lambda>w. - count' w" d] by (simp add: displayTable_fst sorted_desc_iff)

lemma displayTable_mset: "mset (fst (displayTable d)) = mset d"
  by (simp add: displayTable_fst)

lemma displayTable_stable: "filter (\<lambda>w. count' w = k) (fst (displayTable d)) = filter (\<lambda>w. count' w = k) d"
  using sort_key_stable [of "\<lambda>w. - count' w" "- k" d] by (simp add: displayTable_fst)

lemma displayTable_row_nth:
  "i < length d \<Longrightarrow> snd (displayTable d) ! i = table_row (table_total d) i (fst (displayTable d) ! i)"
  by (simp add: displayTable_rows nth_enumerate_eq displayTable_fst)

lemma length_displayTable_rows [simp]: "length (snd (displayTable d)) = length d"
  by (simp add: displayTable_rows displayTable_fst)

subsection \<open>Percentage cells\<close>

lemma spec_percentage_num:
  "0 < T \<Longrightarrow> spec_percentage T w = js_toFixed 2 (Num (of_int (count' w) / of_int T * 100))"
  by (simp add: spec_percentage_def js_div_def)

lemma pct_hundredths_row:
  "pct_hundredths (table_row T i w) = read_decimal (filter (\<lambda>c. c \<noteq> 0x2E) (table_percentage T w))"
  by (simp add: pct_hundredths_def table_row_def butlast_append)

lemma fixed_scaled_pct_close:
  assumes "0 \<le> count' w" "0 < T"
  shows "\<bar>of_nat (fixed_scaled 2 (of_int (count' w) / of_int T * 100))
           - of_int (count' w) / of_int T * 100 * 10 ^ 2\<bar> \<le> (1 / 2 :: rat)"
proof -
  have "0 \<le> (of_int (count' w) / of_int T * 100 :: rat)" using assms by simp
  from fixed_scaled_bounds [OF this, of 2] show ?thesis by (simp only: abs_le_iff) linarith
qed

text \<open>
  C10. The table's sort, \<open>wordsData.sort((a, b) => b.count - a.count)\<close>, is the stable
  sort by descending count: the result is the library's \<open>sort_key\<close> on the negated
  count, ordered by descending count, a permutation of the input, and keeps the input
  order among words of equal count.
\<close>

theorem displayTable_stable_sort:
  "fst (displayTable d) = sort_key (\<lambda>w. - count' w) d \<and>
   sorted_wrt (\<lambda>a b. count' b \<le> count' a) (fst (displayTable d)) \<and>
   mset (fst (displayTable d)) = mset d \<and>
   (\<forall>k. filter (\<lambda>w. count' w = k) (fst (displayTable d)) = filter (\<lambda>w. count' w = k) d)"
  by (simp add: displayTable_fst displayTable_sorted [unfolded displayTable_fst] displayTable_stable [unfolded displayTable_fst])

end
