(* ===== verification/Double.thy ===== *)
theory Double
  imports Table
begin

text \<open>
  The table's percentage cell as the browser computes it, \<open>spec_percentage\<close> of theory
  Table (line 226, binary64 arithmetic of theory Binary64), against the specification's
  value \<open>spec_percentage\<close> (section 4.4, exact \<open>count / total * 100\<close> rounded to two
  decimals). The lemmas bound the digits of \<open>toFixed(f)\<close> of the binary64
  \<open>count / total * 100\<close> for every \<open>f\<close> (\<open>fp_fixed_close\<close>, also used by the doughnut
  tooltip of theory Charts), and show that the rendered cell lies in \<open>0..100\<close>, within
  \<open>1/2 + 2^-37\<close> hundredths of the exact value and within one hundredth of the
  specification's cell, and that the cells of a table add up to 100 within the
  specification's tolerance. The lemma \<open>table_pct_differs_at_23_of_160\<close> shows that the
  cell and the specification's value do differ.
\<close>

subsection \<open>Lemmas\<close>

lemma fp_percentage_value:
  assumes "0 < c" "c \<le> T" "T \<le> 2 ^ 53"
  shows "\<exists>y. fp_mul (fp_div (of_int c) (of_int T)) 100 = Num y \<and> 0 \<le> y \<and>
    \<bar>y - of_int c / of_int T * 100\<bar> \<le> 1 / 2 ^ 44"
proof -
  let ?x = "of_int c / of_int T :: rat"
  have T0: "(0::rat) < of_int T" using assms by simp
  have "(1::rat) \<le> of_int c" using assms by simp
  then have "1 / of_int T \<le> ?x" using T0 by (simp add: divide_right_mono)
  moreover have "(1::rat) / 2 ^ 53 \<le> 1 / of_int T"
  proof -
    have "(of_int T :: rat) \<le> 2 ^ 53" using assms(3) by (metis of_int_le_iff of_int_numeral of_int_power)
    then show ?thesis using T0 by (simp add: frac_le)
  qed
  ultimately have xlo: "1 / 2 ^ 53 \<le> ?x" by linarith
  have xhi: "?x \<le> 1" using assms T0 by (simp add: divide_le_eq)
  have n1: "power_int 2 (-1022) \<le> ?x \<and> ?x < power_int 2 1023"
  proof (rule fp_normal_range)
    show "1 / 2 ^ 54 \<le> ?x" using xlo by (rule order.trans [rotated]) simp
    show "?x \<le> 2 ^ 10" using xhi by (rule order.trans) simp
  qed
  obtain a where a: "fp_round ?x = Num a" "\<bar>a - ?x\<bar> \<le> ?x / 2 ^ 53"
    using fp_round_normal [OF conjunct1 [OF n1] conjunct2 [OF n1]] by blast
  have alo: "?x / 2 \<le> a" and ahi: "a \<le> 2" using a(2) xhi xlo by (simp_all add: abs_le_iff; linarith)+
  have "0 \<le> ?x / 2" using assms by simp
  then have a0: "0 \<le> a" using alo by (rule order.trans)
  have n2: "power_int 2 (-1022) \<le> a * 100 \<and> a * 100 < power_int 2 1023"
  proof (rule fp_normal_range)
    have "1 / 2 ^ 54 \<le> ?x / 2" using xlo by (simp add: mult.commute)
    then show "1 / 2 ^ 54 \<le> a * 100" using alo a0 by linarith
    show "a * 100 \<le> 2 ^ 10" using ahi by simp
  qed
  obtain y where y: "fp_round (a * 100) = Num y" "\<bar>y - a * 100\<bar> \<le> a * 100 / 2 ^ 53"
    using fp_round_normal [OF conjunct1 [OF n2] conjunct2 [OF n2]] by blast
  have "fp_mul (fp_div (of_int c) (of_int T)) 100 = Num y"
    using T0 a(1) y(1) by (simp add: fp_div_def)
  moreover have "0 \<le> y"
  proof -
    have "a * 100 - y \<le> a * 100 / 2 ^ 53" using y(2) unfolding abs_le_iff by linarith
    moreover have "a * 100 / 2 ^ 53 \<le> a * 100" using a0 by simp
    ultimately show ?thesis by linarith
  qed
  moreover have "\<bar>y - ?x * 100\<bar> \<le> 1 / 2 ^ 44"
  proof -
    have e1: "\<bar>y - a * 100\<bar> \<le> 200 / 2 ^ 53"
      using y(2) by (rule order.trans) (use ahi in simp)
    have "a * 100 - ?x * 100 = 100 * (a - ?x)" by (simp add: algebra_simps)
    then have "\<bar>a * 100 - ?x * 100\<bar> = 100 * \<bar>a - ?x\<bar>" by (simp only: abs_mult abs_numeral)
    also have "\<dots> \<le> 100 * (?x / 2 ^ 53)" using a(2) by simp
    also have "\<dots> \<le> 100 / 2 ^ 53" using xhi by simp
    finally have e2: "\<bar>a * 100 - ?x * 100\<bar> \<le> 100 / 2 ^ 53" .
    have "\<bar>y - ?x * 100\<bar> \<le> 300 / 2 ^ 53" using e1 e2 unfolding abs_le_iff by linarith
    also have "(300::rat) / 2 ^ 53 \<le> 1 / 2 ^ 44" by simp
    finally show ?thesis .
  qed
  ultimately show ?thesis by blast
qed

lemma count_le_sum:
  assumes "w \<in> set d" "\<forall>v\<in>set d. 0 < count' v"
  shows "count' w \<le> sum_list (map count' d)"
  using assms
proof (induction d)
  case (Cons v d)
  have "0 \<le> sum_list (map count' d)" using Cons.prems(2) by (intro sum_list_nonneg) auto
  moreover have "0 \<le> count' v" using Cons.prems(2) by simp
  ultimately show ?case using Cons by (auto intro: add_increasing)
qed simp

lemma fp_fixed_close:
  assumes "0 < c" "c \<le> T" "T \<le> 2 ^ 53"
  shows "\<exists>y. fp_mul (fp_div (of_int c) (of_int T)) 100 = Num y \<and> 0 \<le> y \<and>
    \<bar>of_nat (fixed_scaled f y) - of_int c / of_int T * 100 * 10 ^ f\<bar> \<le> (1 / 2 + 10 ^ f / 2 ^ 44 :: rat)"
proof -
  let ?x = "of_int c / of_int T * 100 :: rat"
  obtain y where y: "fp_mul (fp_div (of_int c) (of_int T)) 100 = Num y" "0 \<le> y"
    "\<bar>y - ?x\<bar> \<le> 1 / 2 ^ 44"
    using fp_percentage_value [OF assms] by blast
  have f: "y * 10 ^ f - 1 / 2 < of_nat (fixed_scaled f y)" "of_nat (fixed_scaled f y) \<le> y * 10 ^ f + 1 / 2"
    using fixed_scaled_bounds [OF y(2), of f] by simp_all
  have "y * 10 ^ f - ?x * 10 ^ f = 10 ^ f * (y - ?x)" by (simp add: algebra_simps)
  then have "\<bar>y * 10 ^ f - ?x * 10 ^ f\<bar> = 10 ^ f * \<bar>y - ?x\<bar>" by (simp add: abs_mult)
  also have "\<dots> \<le> 10 ^ f * (1 / 2 ^ 44)" using y(3) by (intro mult_left_mono) simp_all
  finally have "\<bar>y * 10 ^ f - ?x * 10 ^ f\<bar> \<le> 10 ^ f / 2 ^ 44" by simp
  with f have "\<bar>of_nat (fixed_scaled f y) - ?x * 10 ^ f\<bar> \<le> 1 / 2 + 10 ^ f / 2 ^ 44"
    unfolding abs_le_iff by linarith
  with y(1,2) show ?thesis by blast
qed

lemma fp_cell_close:
  assumes "0 < count' w" "count' w \<le> T" "T \<le> 2 ^ 53"
  shows "\<bar>of_nat (read_decimal (filter (\<lambda>c. c \<noteq> 0x2E) (table_percentage T w)))
           - of_int (count' w) / of_int T * 10000\<bar> \<le> (1 / 2 + 1 / 2 ^ 37 :: rat)"
proof -
  obtain y where y: "fp_mul (fp_div (of_int (count' w)) (of_int T)) 100 = Num y" "0 \<le> y"
    "\<bar>of_nat (fixed_scaled 2 y) - of_int (count' w) / of_int T * 100 * 10 ^ 2\<bar> \<le> 1 / 2 + 10 ^ 2 / (2 ^ 44 :: rat)"
    using fp_fixed_close [OF assms] by blast
  have r: "read_decimal (filter (\<lambda>c. c \<noteq> 0x2E) (table_percentage T w)) = fixed_scaled 2 y"
    using y(1,2) by (simp add: table_percentage_def toFixed_roundtrip)
  have eq: "of_int (count' w) / of_int T * 100 * 10 ^ 2 = (of_int (count' w) / of_int T * 10000 :: rat)"
    by simp
  have "\<bar>of_nat (fixed_scaled 2 y) - of_int (count' w) / of_int T * 10000\<bar> \<le> 1 / 2 + 10 ^ 2 / (2 ^ 44 :: rat)"
    using y(3) by (simp only: eq)
  then show ?thesis unfolding r by (rule order.trans) simp
qed

lemma exact_cell_close:
  assumes "0 < count' w" "count' w \<le> T"
  shows "\<bar>of_nat (read_decimal (filter (\<lambda>c. c \<noteq> 0x2E) (spec_percentage T w)))
           - of_int (count' w) / of_int T * 10000\<bar> \<le> (1 / 2 :: rat)"
proof -
  have "0 \<le> (of_int (count' w) / of_int T * 100 :: rat)" using assms by simp
  then have r: "read_decimal (filter (\<lambda>c. c \<noteq> 0x2E) (spec_percentage T w)) =
      fixed_scaled 2 (of_int (count' w) / of_int T * 100)"
    using assms by (simp add: spec_percentage_num toFixed_roundtrip)
  have "of_int (count' w) / of_int T * 100 * 10 ^ 2 = (of_int (count' w) / of_int T * 10000 :: rat)"
    by simp
  with fixed_scaled_pct_close [of w T] assms show ?thesis by (simp only: r)
qed

text \<open>
  For 23 occurrences among 160 words the exact percentage is \<open>14.375\<close>, which rounds
  to \<open>14.38\<close>, but \<open>23 / 160\<close> is not a binary64 value and the browser's
  \<open>(23 / 160) * 100\<close> is just below \<open>14.375\<close>, so the cell reads \<open>14.37\<close>.
\<close>

lemma table_pct_differs_at_23_of_160:
  "table_percentage 160 \<lparr>word = js ''the'', count' = 23\<rparr> = js ''14.37'' \<and>
   spec_percentage 160 \<lparr>word = js ''the'', count' = 23\<rparr> = js ''14.38''"
  by code_simp

subsection \<open>Properties\<close>

text \<open>
  C11. The percentage the table renders for a count between 0 and the total (a positive
  safe integer) lies between 0 and 100: the binary64 rounding never pushes it past
  \<open>100.00\<close>, and \<open>toFixed\<close> stays in its fixed-point branch.
\<close>

theorem displayTable_pct_le_100:
  assumes "0 \<le> count' w" "count' w \<le> T" "0 < T" "T \<le> 2 ^ 53"
  shows "pct_hundredths (table_row T i w) \<le> 10000"
proof (cases "count' w = 0")
  case True
  moreover have "T \<noteq> 0" using assms(3) by simp
  ultimately have "table_percentage T w = js_toFixed 2 (Num 0)"
    by (simp add: table_percentage_def fp_div_def fp_round_def)
  then show ?thesis by (simp add: pct_hundredths_row toFixed_roundtrip fixed_scaled_def)
next
  case False
  with assms(1) have c: "0 < count' w" by simp
  have "of_int (count' w) / of_int T * 10000 \<le> (10000 :: rat)"
    using assms(2,3) by (simp add: divide_le_eq)
  with fp_cell_close [OF c assms(2,4)]
  have "(of_nat (pct_hundredths (table_row T i w)) :: rat) < 10001"
    unfolding pct_hundredths_row abs_le_iff by simp
  then show ?thesis by (simp add: of_nat_less_iff [symmetric])
qed

theorem displayTable_pct_le_100_witness:
  "0 \<le> count' \<lparr>word = js ''cat'', count' = 1\<rparr> \<and> count' \<lparr>word = js ''cat'', count' = 1\<rparr> \<le> (3::int) \<and>
   (0::int) < 3 \<and> (3::int) \<le> 2 ^ 53 \<and> pct_hundredths (table_row 3 0 \<lparr>word = js ''cat'', count' = 1\<rparr>) \<le> 10000"
  using displayTable_pct_le_100 [of "\<lparr>word = js ''cat'', count' = 1\<rparr>" 3 0] by simp

text \<open>
  C27. With the browser's binary64 arithmetic, the percentage cell of a word whose count
  is positive and at most the total (a safe integer, at most \<open>2^53\<close>) reads back as a
  number of hundredths within \<open>1/2 + 2^-37\<close> of the exact \<open>count / total * 10000\<close>:
  the two roundings of \<open>/\<close> and \<open>*\<close> add less than \<open>2^-37\<close> to the rounding of
  \<open>toFixed(2)\<close>.
\<close>

theorem table_pct_fp_close:
  assumes "0 < count' w" "count' w \<le> T" "T \<le> 2 ^ 53"
  shows "\<bar>of_nat (read_decimal (filter (\<lambda>c. c \<noteq> 0x2E) (table_percentage T w)))
           - of_int (count' w) / of_int T * 10000\<bar> \<le> (1 / 2 + 1 / 2 ^ 37 :: rat)"
  by (rule fp_cell_close [OF assms])

theorem table_pct_fp_close_witness:
  "0 < count' \<lparr>word = js ''the'', count' = 2\<rparr> \<and> count' \<lparr>word = js ''the'', count' = 2\<rparr> \<le> (6::int) \<and>
   (6::int) \<le> 2 ^ 53 \<and>
   \<bar>of_nat (read_decimal (filter (\<lambda>c. c \<noteq> 0x2E) (table_percentage 6 \<lparr>word = js ''the'', count' = 2\<rparr>)))
      - of_int (count' \<lparr>word = js ''the'', count' = 2\<rparr>) / of_int 6 * 10000\<bar> \<le> (1 / 2 + 1 / 2 ^ 37 :: rat)"
  using table_pct_fp_close [of "\<lparr>word = js ''the'', count' = 2\<rparr>" 6] by simp

text \<open>
  C28. The cell the browser renders and the cell of the exact model of theory Table differ
  by at most one hundredth of a percent.
\<close>

theorem table_pct_fp_exact:
  assumes "0 < count' w" "count' w \<le> T" "T \<le> 2 ^ 53"
  shows "\<bar>int (read_decimal (filter (\<lambda>c. c \<noteq> 0x2E) (table_percentage T w)))
           - int (read_decimal (filter (\<lambda>c. c \<noteq> 0x2E) (spec_percentage T w)))\<bar> \<le> 1"
proof -
  let ?f = "read_decimal (filter (\<lambda>c. c \<noteq> 0x2E) (table_percentage T w))"
  let ?e = "read_decimal (filter (\<lambda>c. c \<noteq> 0x2E) (spec_percentage T w))"
  have "\<bar>(of_nat ?f :: rat) - of_nat ?e\<bar> < 2"
    using fp_cell_close [OF assms] exact_cell_close [OF assms(1,2)] unfolding abs_le_iff abs_less_iff
    by simp
  then have "\<bar>of_int (int ?f - int ?e) :: rat\<bar> < 2" by simp
  then have "\<bar>int ?f - int ?e\<bar> < 2" by (simp only: of_int_abs [symmetric] of_int_less_numeral_iff)
  then show ?thesis by simp
qed

theorem table_pct_fp_exact_witness:
  "0 < count' \<lparr>word = js ''the'', count' = 23\<rparr> \<and> count' \<lparr>word = js ''the'', count' = 23\<rparr> \<le> (160::int) \<and>
   (160::int) \<le> 2 ^ 53 \<and>
   \<bar>int (read_decimal (filter (\<lambda>c. c \<noteq> 0x2E) (table_percentage 160 \<lparr>word = js ''the'', count' = 23\<rparr>)))
     - int (read_decimal (filter (\<lambda>c. c \<noteq> 0x2E) (spec_percentage 160 \<lparr>word = js ''the'', count' = 23\<rparr>)))\<bar> \<le> 1"
  using table_pct_fp_exact [of "\<lparr>word = js ''the'', count' = 23\<rparr>" 160] by simp



text \<open>
  C29. The specification's tolerance for the percentages (section 8, property 3: their
  sum is 100 within 0.01 percent per row) holds for the binary64 cells: for words with
  positive counts whose total is a safe integer, the cells add up to 10000 hundredths
  within \<open>1/2 + 2^-37\<close> per word.
\<close>

theorem table_pct_fp_sum:
  assumes "d \<noteq> []" "\<forall>w\<in>set d. 0 < count' w" "table_total d \<le> 2 ^ 53"
  shows "\<bar>of_nat (sum_list (map (\<lambda>w. read_decimal (filter (\<lambda>c. c \<noteq> 0x2E)
              (table_percentage (table_total d) w))) d)) - 10000\<bar>
           \<le> of_nat (length d) * (1 / 2 + 1 / 2 ^ 37 :: rat)"
proof -
  let ?T = "table_total d"
  let ?f = "\<lambda>w. of_nat (read_decimal (filter (\<lambda>c. c \<noteq> 0x2E) (table_percentage ?T w))) :: rat"
  let ?g = "\<lambda>w. of_int (count' w) / of_int ?T * 10000 :: rat"
  have T: "?T = sum_list (map count' d)" by (rule table_total_sum)
  have le: "count' w \<le> ?T" if "w \<in> set d" for w
    using count_le_sum [OF that assms(2)] T by simp
  have T0: "0 < ?T" using assms(1,2) le by (cases d) (auto dest: bspec [of _ _ "hd d"] intro: order.strict_trans2)
  have g: "sum_list (map ?g d) = 10000"
  proof -
    have eq: "?g = (\<lambda>w. 10000 / of_int ?T * of_int (count' w))"
      by (simp add: fun_eq_iff)
    have "sum_list (map ?g d) = 10000 / of_int ?T * sum_list (map (\<lambda>w. of_int (count' w)) d)"
      unfolding eq by (rule sum_list_const_mult)
    also have "sum_list (map (\<lambda>w. of_int (count' w)) d) = (of_int (sum_list (map count' d)) :: rat)"
      by (simp add: sum_list_of_int [symmetric] comp_def)
    finally show ?thesis using T0 T by simp
  qed
  have "\<bar>sum_list (map ?f d) - sum_list (map ?g d)\<bar> \<le> of_nat (length d) * (1 / 2 + 1 / 2 ^ 37)"
    by (rule abs_sum_list_diff_le) (use assms(2,3) le fp_cell_close in auto)
  then have "\<bar>sum_list (map ?f d) - 10000\<bar> \<le> of_nat (length d) * (1 / 2 + 1 / 2 ^ 37)"
    by (simp only: g)
  then show ?thesis by (simp add: sum_list_of_nat [symmetric] comp_def)
qed

theorem table_pct_fp_sum_witness:
  "[\<lparr>word = js ''the'', count' = 2\<rparr>, \<lparr>word = js ''cat'', count' = 1\<rparr>] \<noteq> [] \<and>
   table_total [\<lparr>word = js ''the'', count' = 2\<rparr>, \<lparr>word = js ''cat'', count' = 1\<rparr>] \<le> 2 ^ 53 \<and>
   \<bar>of_nat (sum_list (map (\<lambda>w. read_decimal (filter (\<lambda>c. c \<noteq> 0x2E)
       (table_percentage (table_total [\<lparr>word = js ''the'', count' = 2\<rparr>, \<lparr>word = js ''cat'', count' = 1\<rparr>]) w)))
       [\<lparr>word = js ''the'', count' = 2\<rparr>, \<lparr>word = js ''cat'', count' = 1\<rparr>])) - 10000\<bar>
     \<le> 2 * (1 / 2 + 1 / 2 ^ 37 :: rat)"
  using table_pct_fp_sum [of "[\<lparr>word = js ''the'', count' = 2\<rparr>, \<lparr>word = js ''cat'', count' = 1\<rparr>]"]
  by (simp add: table_total_def)

end
