(* ===== verification/Charts.thy ===== *)
theory Charts
  imports Colors Double
begin

text \<open>
  The two charts of script.js: \<open>displayCharts(chartData)\<close> (lines 77--216) and the global
  handles \<open>barChart\<close> and \<open>pieChart\<close> (lines 1--2). The charting library, Chart.js, is not
  code of the repository; its instance registry is modelled from its documented
  behaviour: \<open>new Chart(ctx, config)\<close> registers a live instance bound to the canvas and
  throws when that canvas is still in use by a live instance (Chart.js 3 and later), and
  \<open>chart.destroy()\<close> unregisters it. The state \<open>chart_slots\<close> holds the two handles and
  the registry (live instances with their identities, in creation order), and is
  extended by the page state of theory Page, so that the operations here are stated over
  any extension \<open>'a chart_slots_scheme\<close>.
  Of a chart configuration the model keeps what the script computes from the data:
  canvas, type, labels, values, background and border colours, and the tooltip label
  callbacks; fonts, paddings and other constant options are not modelled.
  The lemmas show that, from a state where every live instance is the one a handle names
  (\<open>chart_inv\<close>), \<open>displayCharts\<close> never throws, leaves exactly the two new charts
  live and keeps the invariant, both configurations well formed (\<open>chart_wf\<close>: a label
  and colours for every value); and that the doughnut tooltip divides by the total of the
  chart's own dataset. The tooltip's \<open>/\<close> and \<open>*\<close> are the binary64 operations of
  theory Binary64; the dataset's \<open>reduce\<close> sum is exact for totals up to \<open>2^53\<close>.
\<close>

datatype canvas = BarCanvas | PieCanvas

datatype chart_type = Bar | Doughnut

datatype chart_border = Border_each "jsstr list" | Border_all jsstr

record chart =
  chart_canvas :: canvas
  chart_kind :: chart_type
  chart_labels :: "jsstr list"
  chart_values :: "int list"
  chart_background :: "jsstr list"
  chart_border :: chart_border

record chart_slots =
  barChart :: "nat option"
  pieChart :: "nat option"
  live_charts :: "(nat \<times> chart) list"
  next_chart_id :: nat

subsection \<open>The Chart.js registry\<close>

definition chart_new :: "chart \<Rightarrow> 'a chart_slots_scheme \<Rightarrow> (nat, 'a chart_slots_scheme) completion" where
  "chart_new cfg s =
     (if list_ex (\<lambda>(i, c). chart_canvas c = chart_canvas cfg) (live_charts s) then Throw s
      else Normal (next_chart_id s)
             (s\<lparr>live_charts := live_charts s @ [(next_chart_id s, cfg)],
                next_chart_id := Suc (next_chart_id s)\<rparr>))"

definition chart_destroy :: "nat \<Rightarrow> 'a chart_slots_scheme \<Rightarrow> 'a chart_slots_scheme" where
  "chart_destroy i s = s\<lparr>live_charts := filter (\<lambda>(j, c). j \<noteq> i) (live_charts s)\<rparr>"

subsection \<open>Tooltip callbacks\<close>

definition bar_tooltip_label :: "int \<Rightarrow> jsstr" where
  "bar_tooltip_label y = js ''Frequency: '' @ int_to_jsstr y"

definition doughnut_tooltip_label :: "int list \<Rightarrow> jsstr \<Rightarrow> int \<Rightarrow> jsstr" where
  "doughnut_tooltip_label data label parsed =
     (let total = foldl (\<lambda>a b. a + b) 0 data;
          percentage = js_toFixed 1 (fp_mul (fp_div (of_int parsed) (of_int total)) 100)
      in label @ js '': '' @ int_to_jsstr parsed @ js '' ('' @ percentage @ js ''%)'')"

definition chart_tooltip :: "chart \<Rightarrow> nat \<Rightarrow> jsstr" where
  "chart_tooltip c i =
     (case chart_kind c of
        Bar \<Rightarrow> bar_tooltip_label (chart_values c ! i)
      | Doughnut \<Rightarrow> doughnut_tooltip_label (chart_values c) (chart_labels c ! i) (chart_values c ! i))"

subsection \<open>displayCharts\<close>

definition bar_config :: "jsstr list \<Rightarrow> int list \<Rightarrow> jsstr list \<Rightarrow> chart" where
  "bar_config labels counts colors' =
     \<lparr>chart_canvas = BarCanvas, chart_kind = Bar, chart_labels = labels, chart_values = counts,
      chart_background = colors', chart_border = Border_each (map border_color colors')\<rparr>"

definition pie_config :: "jsstr list \<Rightarrow> int list \<Rightarrow> jsstr list \<Rightarrow> chart" where
  "pie_config labels counts colors' =
     \<lparr>chart_canvas = PieCanvas, chart_kind = Doughnut, chart_labels = labels, chart_values = counts,
      chart_background = colors', chart_border = Border_all (js ''white'')\<rparr>"

definition destroy_handle :: "nat option \<Rightarrow> 'a chart_slots_scheme \<Rightarrow> 'a chart_slots_scheme" where
  "destroy_handle h s = (case h of Some c \<Rightarrow> chart_destroy c s | None \<Rightarrow> s)"

definition displayCharts ::
  "word_count list \<Rightarrow> 'a chart_slots_scheme \<Rightarrow> (unit, 'a chart_slots_scheme) completion" where
  "displayCharts chartData s0 =
     (let labels = map word chartData;
          counts = map count' chartData;
          colors' = generateColors (length chartData);
          s1 = destroy_handle (barChart s0) s0
      in case chart_new (bar_config labels counts colors') s1 of
           Throw s2 \<Rightarrow> Throw s2
         | Normal b s2 \<Rightarrow>
             let s3 = s2\<lparr>barChart := Some b\<rparr>;
                 s4 = destroy_handle (pieChart s3) s3
             in case chart_new (pie_config labels counts colors') s4 of
                  Throw s5 \<Rightarrow> Throw s5
                | Normal p s5 \<Rightarrow> Normal () (s5\<lparr>pieChart := Some p\<rparr>))"

subsection \<open>The registry invariant\<close>

primrec handle_list :: "nat option \<Rightarrow> nat list" where
  "handle_list None = []"
| "handle_list (Some i) = [i]"

definition on_canvas :: "canvas \<Rightarrow> nat \<times> chart \<Rightarrow> bool" where
  "on_canvas cv p \<longleftrightarrow> chart_canvas (snd p) = cv"

definition chart_inv :: "'a chart_slots_scheme \<Rightarrow> bool" where
  "chart_inv s \<longleftrightarrow>
     distinct (map fst (live_charts s)) \<and>
     list_all (\<lambda>p. fst p < next_chart_id s) (live_charts s) \<and>
     map fst (filter (on_canvas BarCanvas) (live_charts s)) = handle_list (barChart s) \<and>
     map fst (filter (on_canvas PieCanvas) (live_charts s)) = handle_list (pieChart s)"

text \<open>
  A chart configuration is well formed when every value has a label, a background
  colour and, where borders are given per value, a border colour.
\<close>

definition chart_wf :: "chart \<Rightarrow> bool" where
  "chart_wf c \<longleftrightarrow>
     length (chart_labels c) = length (chart_values c) \<and>
     length (chart_background c) = length (chart_values c) \<and>
     (case chart_border c of Border_each bs \<Rightarrow> length bs = length (chart_values c) | Border_all _ \<Rightarrow> True)"

subsection \<open>Lemmas\<close>

lemma handle_list_Some_iff: "i \<in> set (handle_list h) \<longleftrightarrow> h = Some i"
  by (cases h) auto

lemma chart_inv_member:
  assumes "chart_inv s" "q \<in> set (live_charts s)"
  shows "(on_canvas BarCanvas q \<and> barChart s = Some (fst q)) \<or>
         (on_canvas PieCanvas q \<and> pieChart s = Some (fst q))"
proof (cases "chart_canvas (snd q)")
  case BarCanvas
  then have "fst q \<in> set (map fst (filter (on_canvas BarCanvas) (live_charts s)))"
    using assms(2) by (auto simp: on_canvas_def)
  with assms(1) BarCanvas show ?thesis
    by (simp add: chart_inv_def handle_list_Some_iff on_canvas_def)
next
  case PieCanvas
  then have "fst q \<in> set (map fst (filter (on_canvas PieCanvas) (live_charts s)))"
    using assms(2) by (auto simp: on_canvas_def)
  with assms(1) PieCanvas show ?thesis
    by (simp add: chart_inv_def handle_list_Some_iff on_canvas_def)
qed

lemma map_fst_filter_single:
  "map fst (filter P xs) = [i] \<Longrightarrow> \<exists>q\<in>set xs. P q \<and> fst q = i"
proof -
  assume "map fst (filter P xs) = [i]"
  then have "i \<in> set (map fst (filter P xs))" by simp
  then show ?thesis by auto
qed

lemma chart_inv_handle_live:
  assumes "chart_inv s"
  shows "barChart s = Some b \<Longrightarrow> \<exists>q\<in>set (live_charts s). on_canvas BarCanvas q \<and> fst q = b"
    and "pieChart s = Some p \<Longrightarrow> \<exists>q\<in>set (live_charts s). on_canvas PieCanvas q \<and> fst q = p"
  using assms by (auto simp: chart_inv_def intro: map_fst_filter_single)

lemma chart_inv_handle_lt:
  assumes "chart_inv s" "i \<in> set (handle_list (barChart s)) \<or> i \<in> set (handle_list (pieChart s))"
  shows "i < next_chart_id s"
proof -
  from assms(2) obtain q where "q \<in> set (live_charts s)" "fst q = i"
    using chart_inv_handle_live [OF assms(1)] by (auto simp: handle_list_Some_iff)
  with assms(1) show ?thesis by (auto simp: chart_inv_def list_all_iff)
qed

lemma destroy_handle_filter:
  "destroy_handle h s = s\<lparr>live_charts := filter (\<lambda>q. fst q \<notin> set (handle_list h)) (live_charts s)\<rparr>"
  by (cases h) (simp_all add: destroy_handle_def chart_destroy_def split_def)

lemma chart_inv_cleared:
  assumes "chart_inv s"
  shows "filter (\<lambda>q. fst q \<notin> set (handle_list (pieChart s)))
           (filter (\<lambda>q. fst q \<notin> set (handle_list (barChart s))) (live_charts s)) = []"
  using chart_inv_member [OF assms] by (auto simp: filter_empty_conv handle_list_Some_iff)

lemma bar_cleared:
  assumes "chart_inv s"
  shows "\<not> list_ex (\<lambda>(i, c). chart_canvas c = BarCanvas)
           (filter (\<lambda>q. fst q \<notin> set (handle_list (barChart s))) (live_charts s))"
proof -
  have False if "q \<in> set (live_charts s)" "fst q \<notin> set (handle_list (barChart s))"
    "chart_canvas (snd q) = BarCanvas" for q
    using chart_inv_member [OF assms that(1)] that(2,3)
    by (auto simp: on_canvas_def handle_list_Some_iff)
  then show ?thesis by (auto simp: list_ex_iff)
qed

lemma displayCharts_result:
  assumes inv: "chart_inv s"
  shows "displayCharts d s =
    Normal () (s\<lparr>live_charts := [(next_chart_id s, bar_config (map word d) (map count' d) (generateColors (length d))),
                                 (Suc (next_chart_id s), pie_config (map word d) (map count' d) (generateColors (length d)))],
                 next_chart_id := Suc (Suc (next_chart_id s)),
                 barChart := Some (next_chart_id s), pieChart := Some (Suc (next_chart_id s))\<rparr>)"
proof -
  let ?n = "next_chart_id s"
  let ?bc = "bar_config (map word d) (map count' d) (generateColors (length d))"
  let ?P1 = "\<lambda>q. fst q \<notin> set (handle_list (barChart s))"
  let ?P2 = "\<lambda>q. fst q \<notin> set (handle_list (pieChart s))"
  have n: "?P2 (?n, ?bc)"
    using chart_inv_handle_lt [OF inv, of ?n] by auto
  show ?thesis
    using bar_cleared [OF inv] chart_inv_cleared [OF inv] n
    by (simp add: displayCharts_def Let_def destroy_handle_filter chart_new_def bar_config_def
        pie_config_def del: filter_filter)
qed

lemma displayCharts_wf:
  assumes "chart_inv s" and "displayCharts d s = Normal u s'"
  shows "list_all (chart_wf \<circ> snd) (live_charts s')"
proof -
  have "s' = s\<lparr>live_charts := [(next_chart_id s, bar_config (map word d) (map count' d) (generateColors (length d))),
                                 (Suc (next_chart_id s), pie_config (map word d) (map count' d) (generateColors (length d)))],
                 next_chart_id := Suc (Suc (next_chart_id s)),
                 barChart := Some (next_chart_id s), pieChart := Some (Suc (next_chart_id s))\<rparr>"
    using assms(2) displayCharts_result [OF assms(1), of d] by simp
  then show ?thesis by (simp add: chart_wf_def bar_config_def pie_config_def length_generateColors)
qed

text \<open>
  C9. From a state where the live instances are exactly those the handles name,
  \<open>displayCharts\<close> never throws (no canvas is found in use), and afterwards exactly
  two instances are live, the new bar chart and the new doughnut chart of the data, named
  by the handles: the old ones have been destroyed, none leaks.
\<close>

theorem displayCharts_no_leak:
  assumes "chart_inv s"
  shows "\<exists>s'. displayCharts d s = Normal () s' \<and> chart_inv s' \<and>
    map snd (live_charts s') =
      [bar_config (map word d) (map count' d) (generateColors (length d)),
       pie_config (map word d) (map count' d) (generateColors (length d))] \<and>
    barChart s' = Some (next_chart_id s) \<and> pieChart s' = Some (Suc (next_chart_id s))"
  using displayCharts_result [OF assms]
  by (simp add: chart_inv_def on_canvas_def bar_config_def pie_config_def)

theorem displayCharts_no_leak_witness:
  "chart_inv \<lparr>barChart = None, pieChart = None, live_charts = [], next_chart_id = 0\<rparr> \<and>
   (\<exists>s'. displayCharts [] \<lparr>barChart = None, pieChart = None, live_charts = [], next_chart_id = 0\<rparr> = Normal () s' \<and>
     chart_inv s')"
proof -
  have h: "chart_inv \<lparr>barChart = None, pieChart = None, live_charts = [], next_chart_id = 0\<rparr>"
    by (simp add: chart_inv_def)
  show ?thesis using h displayCharts_no_leak [OF h, of "[]"] by blast
qed

text \<open>
  C13. The doughnut chart's tooltip shows the percentage of a word's count in the total
  of the chart's own dataset (\<open>chart_data\<close>), not in the server's \<open>total_words\<close>,
  computed as the browser does in binary64; for positive counts whose total is a safe
  integer, its one-decimal digits are within \<open>1/2 + 2^-40\<close> tenths of the exact
  percentage.
\<close>

theorem doughnut_tooltip_dataset_total:
  assumes "i < length d" "\<forall>w\<in>set d. 0 < count' w" "sum_list (map count' d) \<le> 2 ^ 53"
  shows "\<exists>p. chart_tooltip (pie_config (map word d) (map count' d) cs) i =
      word (d ! i) @ js '': '' @ int_to_jsstr (count' (d ! i)) @ js '' ('' @ p @ js ''%)'' \<and>
    p = js_toFixed 1 (fp_mul (fp_div (of_int (count' (d ! i))) (of_int (sum_list (map count' d)))) 100) \<and>
    \<bar>of_nat (read_decimal (filter (\<lambda>c. c \<noteq> 0x2E) p))
       - of_int (count' (d ! i)) / of_int (sum_list (map count' d)) * 1000\<bar> \<le> (1 / 2 + 1 / 2 ^ 40 :: rat)"
proof -
  let ?c = "count' (d ! i)" and ?T = "sum_list (map count' d)"
  have c: "0 < ?c" "?c \<le> ?T" using assms(1,2) count_le_sum [OF nth_mem [OF assms(1)] assms(2)] by simp_all
  obtain y where y: "fp_mul (fp_div (of_int ?c) (of_int ?T)) 100 = Num y" "0 \<le> y"
    "\<bar>of_nat (fixed_scaled 1 y) - of_int ?c / of_int ?T * 100 * 10 ^ 1\<bar> \<le> 1 / 2 + 10 ^ 1 / (2 ^ 44 :: rat)"
    using fp_fixed_close [OF c assms(3)] by blast
  have r: "read_decimal (filter (\<lambda>c. c \<noteq> 0x2E) (js_toFixed 1 (Num y))) = fixed_scaled 1 y"
    using y(2) by (rule toFixed_roundtrip)
  have eq: "of_int ?c / of_int ?T * 100 * 10 ^ 1 = (of_int ?c / of_int ?T * 1000 :: rat)" by simp
  have "\<bar>of_nat (fixed_scaled 1 y) - of_int ?c / of_int ?T * 1000\<bar> \<le> 1 / 2 + 10 ^ 1 / (2 ^ 44 :: rat)"
    using y(3) by (simp only: eq)
  then have b: "\<bar>of_nat (fixed_scaled 1 y) - of_int ?c / of_int ?T * 1000\<bar> \<le> (1 / 2 + 1 / 2 ^ 40 :: rat)"
    by (rule order.trans) simp
  have t: "chart_tooltip (pie_config (map word d) (map count' d) cs) i =
      word (d ! i) @ js '': '' @ int_to_jsstr ?c @ js '' ('' @
      js_toFixed 1 (fp_mul (fp_div (of_int ?c) (of_int ?T)) 100) @ js ''%)''"
    using assms(1)
    by (simp add: chart_tooltip_def pie_config_def doughnut_tooltip_label_def Let_def
        foldl_add_sum_list [where f = id, simplified])
  show ?thesis using t b y(1) unfolding r [symmetric] by auto
qed

theorem doughnut_tooltip_dataset_total_witness:
  "(0::nat) < length [\<lparr>word = js ''a'', count' = 3\<rparr>] \<and> 0 < count' \<lparr>word = js ''a'', count' = 3\<rparr> \<and>
   sum_list (map count' [\<lparr>word = js ''a'', count' = 3\<rparr>]) \<le> 2 ^ 53 \<and>
   (\<exists>p. chart_tooltip (pie_config [js ''a''] [3] []) 0 = js ''a: '' @ int_to_jsstr 3 @ js '' ('' @ p @ js ''%)'' \<and>
      \<bar>of_nat (read_decimal (filter (\<lambda>c. c \<noteq> 0x2E) p)) - 1000\<bar> \<le> (1 / 2 + 1 / 2 ^ 40 :: rat))"
proof -
  have h1: "(0::nat) < length [\<lparr>word = js ''a'', count' = 3\<rparr>]" by simp
  have h2: "\<forall>w\<in>set [\<lparr>word = js ''a'', count' = 3\<rparr>]. 0 < count' w" by simp
  have h3: "sum_list (map count' [\<lparr>word = js ''a'', count' = 3\<rparr>]) \<le> 2 ^ 53" by simp
  show ?thesis using doughnut_tooltip_dataset_total [OF h1 h2 h3, of "[]"] by auto
qed

end
