(* ===== verification/Page.thy ===== *)
theory Page
  imports Charts
begin

text \<open>
  The page of script.js as a state: the record \<open>page\<close> extends the chart handles and
  registry of theory Charts with the parts of the document the script reads or writes,
  and with the requests it has sent. Its fields and the code they stand for:
  \<^item> \<open>text_value\<close>, \<open>placeholder\<close>: \<open>textInput.value\<close> and \<open>textInput.placeholder\<close>;
  \<^item> \<open>key_listener\<close>: whether the \<open>keydown\<close> listener of the \<open>DOMContentLoaded\<close>
    handler (lines 291--301) is installed;
  \<^item> \<open>loading_display\<close>, \<open>results_display\<close>: whether \<open>#loading\<close> and \<open>#results\<close> are
    shown (\<open>style.display = 'block'\<close>);
  \<^item> \<open>error_banners\<close>: the \<open>innerHTML\<close> of the \<open>.error\<close> elements, in document order;
  \<^item> \<open>stats_html\<close>: the three \<open>stat-number\<close> texts written by \<open>displayStats\<close>;
  \<^item> \<open>table_html\<close>: the cells of the rows written to \<open>#tableBody\<close> by \<open>displayTable\<close>;
  \<^item> \<open>in_flight\<close>, \<open>requests_sent\<close>: the bodies of the \<open>/analyze\<close> requests not yet
    settled, and of all requests ever sent.
  The server's JSON answer is the record \<open>analysis_response\<close>; a field that is absent
  is \<open>None\<close> (JavaScript's \<open>undefined\<close>), and \<open>success\<close> is its truthiness.
  The DOM helpers are the functions of lines 42--75 and 260--288; \<open>displayStats\<close> and
  \<open>displayResults\<close> return a \<open>completion\<close>, since reading \<open>.length\<close>, \<open>.map\<close> or
  \<open>.reduce\<close> of an absent array throws a \<open>TypeError\<close>, after the effects of the
  statements before it. \<open>scrollIntoView\<close> and \<open>console.error\<close> have no effect on the
  modelled state.
\<close>

record analysis_response =
  success :: bool
  error :: "jsstr option"
  total_words :: "int option"
  unique_words :: "int option"
  chart_data :: "word_count list option"
  words_data :: "word_count list option"

record page = chart_slots +
  text_value :: jsstr
  placeholder :: jsstr
  key_listener :: bool
  loading_display :: bool
  results_display :: bool
  error_banners :: "jsstr list"
  stats_html :: "jsstr list"
  table_html :: "jsstr list list"
  in_flight :: "jsstr list"
  requests_sent :: "jsstr list"

definition initial_page :: page where
  "initial_page =
     \<lparr>barChart = None, pieChart = None, live_charts = [], next_chart_id = 0,
      text_value = [], placeholder = [], key_listener = False, loading_display = False,
      results_display = False, error_banners = [], stats_html = [], table_html = [],
      in_flight = [], requests_sent = []\<rparr>"

subsection \<open>DOM helpers\<close>

definition showLoading :: "bool \<Rightarrow> page \<Rightarrow> page" where
  "showLoading show s = s\<lparr>loading_display := show\<rparr>"

definition showResults :: "page \<Rightarrow> page" where
  "showResults s = s\<lparr>results_display := True\<rparr>"

definition hideResults :: "page \<Rightarrow> page" where
  "hideResults s = s\<lparr>results_display := False\<rparr>"

definition hideError :: "page \<Rightarrow> page" where
  "hideError s = s\<lparr>error_banners := drop 1 (error_banners s)\<rparr>"

definition error_html :: "jsstr \<Rightarrow> jsstr" where
  "error_html message = js ''<i class=\"fas fa-exclamation-triangle\"></i> '' @ message"

definition showError :: "jsstr \<Rightarrow> page \<Rightarrow> page" where
  "showError message s =
     (let s' = hideError s in s'\<lparr>error_banners := error_html message # error_banners s'\<rparr>)"

declare showLoading_def [page_defs] showResults_def [page_defs] hideResults_def [page_defs]
  hideError_def [page_defs] showError_def [page_defs]

subsection \<open>displayStats and displayResults\<close>

definition json_number_html :: "int option \<Rightarrow> jsstr" where
  "json_number_html v = (case v of None \<Rightarrow> js ''undefined'' | Some n \<Rightarrow> int_to_jsstr n)"

definition displayStats :: "analysis_response \<Rightarrow> page \<Rightarrow> (unit, page) completion" where
  "displayStats data s =
     (case chart_data data of
        None \<Rightarrow> Throw s
      | Some cd \<Rightarrow> Normal ()
          (s\<lparr>stats_html := [json_number_html (total_words data), json_number_html (unique_words data),
                            decimal (length cd)]\<rparr>))"

definition displayResults :: "analysis_response \<Rightarrow> page \<Rightarrow> (unit, page) completion" where
  "displayResults data s =
     (case displayStats data s of
        Throw s1 \<Rightarrow> Throw s1
      | Normal _ s1 \<Rightarrow>
          (case chart_data data of
             None \<Rightarrow> Throw s1
           | Some cd \<Rightarrow>
               (case displayCharts cd s1 of
                  Throw s2 \<Rightarrow> Throw s2
                | Normal _ s2 \<Rightarrow>
                    (case words_data data of
                       None \<Rightarrow> Throw s2
                     | Some wd \<Rightarrow> Normal () (showResults (s2\<lparr>table_html := snd (displayTable wd)\<rparr>))))))"

end
