(* ===== verification/Controller.thy ===== *)
theory Controller
  imports Page
begin

text \<open>
  The analysis controller: \<open>analyzeText()\<close> (lines 4--40) and the event wiring of lines
  290--301. \<open>analyzeText\<close> is an \<open>async\<close> function: it runs synchronously up to
  \<open>await fetch(...)\<close>, and the rest runs when the request settles, interleaved with
  any other event. It is therefore two functions:
  \<^item> \<open>analyzeText_start\<close>: lines 5--25 up to the dispatch of the request, which is
    recorded in \<open>in_flight\<close> and \<open>requests_sent\<close>;
  \<^item> \<open>analyzeText_settle\<close>: lines 27--39, the \<open>try\<close>/\<open>catch\<close>/\<open>finally\<close> after
    the request has settled with a \<open>fetch_outcome\<close>: a transport failure (the
    \<open>fetch\<close> promise rejects), or a response with its \<open>ok\<close> flag and its body parsed
    as JSON (\<open>None\<close> when \<open>response.json()\<close> rejects). The two awaits of the
    continuation are one step: no statement runs between them, so an event interleaved
    there has the same effect as one before the step.
  Events are the page loading, typing into the text area, a click on the Analyze button
  (its \<open>onclick\<close> handler is in the page template, outside src/), a key press in the
  text area, and the settling of the \<open>i\<close>-th pending request with an outcome chosen by
  the environment. \<open>page_step\<close> is the step function (\<open>None\<close> for an event that
  cannot happen), \<open>reachable\<close> the states reachable from the initial page, and
  \<open>run\<close> an executable run over a list of events.
\<close>

datatype fetch_outcome = Transport_failure | Http_response bool "analysis_response option"

datatype event =
    Dom_content_loaded
  | Input jsstr
  | Click_analyze
  | Key_down jsstr bool
  | Fetch_settled nat fetch_outcome

definition validation_message :: jsstr where
  "validation_message = js ''Please enter some text to analyze.''"

definition network_message :: jsstr where
  "network_message = js ''Network error. Please check your connection and try again.''"

definition fallback_message :: jsstr where
  "fallback_message = js ''An error occurred while analyzing the text.''"

definition placeholder_text :: jsstr where
  "placeholder_text =
     js ''Paste or type your text here to analyze word frequencies...\<newline>\<newline>Example: The quick brown fox jumps over the lazy dog. This is a sample text for testing the word frequency analyzer.''"

subsection \<open>analyzeText\<close>

definition analyzeText_start :: "page \<Rightarrow> page" where
  "analyzeText_start s =
     (let text = js_trim (text_value s)
      in if text = [] then showError validation_message s
         else let s1 = hideError (hideResults (showLoading True s))
              in s1\<lparr>in_flight := in_flight s1 @ [text], requests_sent := requests_sent s1 @ [text]\<rparr>)"

definition error_or_fallback :: "jsstr option \<Rightarrow> jsstr" where
  "error_or_fallback e = (case e of Some m \<Rightarrow> if m = [] then fallback_message else m | None \<Rightarrow> fallback_message)"

definition analyzeText_settle :: "fetch_outcome \<Rightarrow> page \<Rightarrow> page" where
  "analyzeText_settle r s =
     showLoading False
       (case r of
          Transport_failure \<Rightarrow> showError network_message s
        | Http_response ok body \<Rightarrow>
            (case body of
               None \<Rightarrow> showError network_message s
             | Some data \<Rightarrow>
                 if ok \<and> success data
                 then (case displayResults data s of
                         Normal _ s' \<Rightarrow> s'
                       | Throw s' \<Rightarrow> showError network_message s')
                 else showError (error_or_fallback (error data)) s))"

subsection \<open>Events\<close>

definition remove_nth :: "nat \<Rightarrow> 'a list \<Rightarrow> 'a list" where
  "remove_nth i xs = take i xs @ drop (Suc i) xs"

fun page_step :: "page \<Rightarrow> event \<Rightarrow> page option" where
  "page_step s Dom_content_loaded =
     (if key_listener s then None else Some (s\<lparr>key_listener := True, placeholder := placeholder_text\<rparr>))"
| "page_step s (Input v) = Some (s\<lparr>text_value := v\<rparr>)"
| "page_step s Click_analyze = Some (analyzeText_start s)"
| "page_step s (Key_down k ctrl) =
     Some (if key_listener s \<and> k = js ''Enter'' \<and> ctrl then analyzeText_start s else s)"
| "page_step s (Fetch_settled i r) =
     (if i < length (in_flight s)
      then Some (analyzeText_settle r (s\<lparr>in_flight := remove_nth i (in_flight s)\<rparr>))
      else None)"

inductive reachable :: "page \<Rightarrow> bool" where
  init: "reachable initial_page"
| step: "reachable s \<Longrightarrow> page_step s e = Some s' \<Longrightarrow> reachable s'"

fun run :: "page \<Rightarrow> event list \<Rightarrow> page option" where
  "run s [] = Some s"
| "run s (e # es) = (case page_step s e of None \<Rightarrow> None | Some s' \<Rightarrow> run s' es)"

text \<open>
  The invariant of the reachable states: at most one error banner, the loading
  indicator shown only while a request is pending, and the chart registry invariant of
  theory Charts.
\<close>

definition page_inv :: "page \<Rightarrow> bool" where
  "page_inv s \<longleftrightarrow> length (error_banners s) \<le> 1 \<and> (loading_display s \<longrightarrow> in_flight s \<noteq> []) \<and> chart_inv s"

lemmas trim_eval = js_trim_def is_trim_space_def is_js_whitespace_def is_js_line_terminator_def

subsection \<open>Frame lemmas of the DOM helpers\<close>

lemma showError_fields [simp]:
  "barChart (showError m s) = barChart s" "pieChart (showError m s) = pieChart s"
  "live_charts (showError m s) = live_charts s" "next_chart_id (showError m s) = next_chart_id s"
  "loading_display (showError m s) = loading_display s" "results_display (showError m s) = results_display s"
  "in_flight (showError m s) = in_flight s" "requests_sent (showError m s) = requests_sent s"
  "key_listener (showError m s) = key_listener s" "text_value (showError m s) = text_value s"
  "stats_html (showError m s) = stats_html s" "table_html (showError m s) = table_html s"
  "error_banners (showError m s) = error_html m # drop 1 (error_banners s)"
  by (simp_all add: page_defs Let_def)

lemma chart_inv_in_flight [simp]: "chart_inv (s\<lparr>in_flight := xs\<rparr>) = chart_inv s"
  by (simp add: chart_inv_def)

lemma displayResults_frame:
  assumes "chart_inv s" and "s' = completion_state (displayResults data s)"
  shows "loading_display s' = loading_display s \<and> in_flight s' = in_flight s \<and>
    requests_sent s' = requests_sent s \<and> error_banners s' = error_banners s \<and>
    key_listener s' = key_listener s \<and> chart_inv s'"
proof (cases "chart_data data")
  case None
  then show ?thesis using assms by (simp add: displayResults_def displayStats_def)
next
  case (Some cd)
  let ?s1 = "s\<lparr>stats_html := [json_number_html (total_words data),
                     json_number_html (unique_words data), decimal (length cd)]\<rparr>"
  have "chart_inv ?s1" using assms by (simp add: chart_inv_def)
  note dc = displayCharts_result [OF this, of cd]
  show ?thesis
    using Some dc assms
    by (cases "words_data data")
       (simp_all add: displayResults_def displayStats_def showResults_def chart_inv_def on_canvas_def
         bar_config_def pie_config_def)
qed

subsection \<open>The invariant of reachable states\<close>

lemma page_inv_initial: "page_inv initial_page"
  by (simp add: page_inv_def initial_page_def chart_inv_def)

lemma page_inv_showError: "page_inv s \<Longrightarrow> page_inv (showError m s)"
  by (simp add: page_inv_def chart_inv_def)

lemma page_inv_analyzeText_start: "page_inv s \<Longrightarrow> page_inv (analyzeText_start s)"
  by (simp add: analyzeText_start_def Let_def page_inv_showError)
     (simp add: page_inv_def page_defs chart_inv_def)

lemma page_inv_settle:
  assumes "length (error_banners s) \<le> 1" "chart_inv s"
  shows "page_inv (analyzeText_settle r s)"
proof -
  have err: "page_inv (showLoading False (showError m t))"
    if "length (error_banners t) \<le> 1" "chart_inv t" for m t
    using that by (simp add: page_inv_def page_defs chart_inv_def Let_def)
  show ?thesis
  proof (cases r)
    case Transport_failure
    then show ?thesis using err assms by (simp add: analyzeText_settle_def)
  next
    case (Http_response ok body)
    show ?thesis
    proof (cases body)
      case None
      then show ?thesis using err assms Http_response by (simp add: analyzeText_settle_def)
    next
      case (Some data)
      let ?s' = "completion_state (displayResults data s)"
      have fr: "loading_display ?s' = loading_display s \<and> in_flight ?s' = in_flight s \<and>
        requests_sent ?s' = requests_sent s \<and> error_banners ?s' = error_banners s \<and>
        key_listener ?s' = key_listener s \<and> chart_inv ?s'"
        by (rule displayResults_frame [OF assms(2) refl])
      show ?thesis
      proof (cases "displayResults data s")
        case (Normal u s')
        with fr have "page_inv (showLoading False s')"
          using assms by (simp add: page_inv_def page_defs chart_inv_def)
        with Normal Some Http_response err assms show ?thesis by (simp add: analyzeText_settle_def)
      next
        case (Throw s')
        with fr err [of s'] have "page_inv (showLoading False (showError network_message s'))"
          using assms by simp
        with Throw Some Http_response err assms show ?thesis by (simp add: analyzeText_settle_def)
      qed
    qed
  qed
qed

lemma page_inv_step:
  assumes "page_inv s" "page_step s e = Some s'"
  shows "page_inv s'"
proof (cases e)
  case (Fetch_settled i r)
  let ?t = "s\<lparr>in_flight := remove_nth i (in_flight s)\<rparr>"
  from Fetch_settled assms(2) have s': "s' = analyzeText_settle r ?t"
    by (simp split: if_splits)
  have "length (error_banners ?t) \<le> 1" "chart_inv ?t"
    using assms(1) by (simp_all add: page_inv_def)
  then show ?thesis unfolding s' by (rule page_inv_settle)
next
  case Dom_content_loaded
  with assms show ?thesis by (auto simp: page_inv_def chart_inv_def split: if_splits)
next
  case (Input v)
  with assms show ?thesis by (auto simp: page_inv_def chart_inv_def)
next
  case Click_analyze
  with assms show ?thesis by (auto intro: page_inv_analyzeText_start)
next
  case (Key_down k ctrl)
  with assms show ?thesis by (auto intro: page_inv_analyzeText_start split: if_splits)
qed

lemma reachable_page_inv: "reachable s \<Longrightarrow> page_inv s"
  by (induction rule: reachable.induct) (auto intro: page_inv_initial page_inv_step)

lemma run_reachable: "reachable s \<Longrightarrow> run s es = Some s' \<Longrightarrow> reachable s'"
proof (induction es arbitrary: s)
  case Nil
  then show ?case by simp
next
  case (Cons e es)
  then obtain t where "page_step s e = Some t" "run t es = Some s'"
    by (auto split: option.splits)
  with Cons show ?case by (blast intro: reachable.step)
qed

lemma run_reaches:
  assumes "case run s0 es of None \<Rightarrow> False | Some s \<Rightarrow> P s" and "reachable s0"
  shows "\<exists>s. reachable s \<and> P s"
  using assms by (cases "run s0 es") (auto dest: run_reachable)

subsection \<open>The handlers, branch by branch\<close>

text \<open>
  C1. When the text area holds only white space, \<open>analyzeText\<close> sends no request: it
  shows the validation message in the error banner (replacing any banner there) and
  leaves the loading indicator and the results panel as they were.
\<close>

theorem analyzeText_blank_input:
  assumes "js_trim (text_value s) = []"
  shows "requests_sent (analyzeText_start s) = requests_sent s \<and> in_flight (analyzeText_start s) = in_flight s \<and>
    loading_display (analyzeText_start s) = loading_display s \<and>
    results_display (analyzeText_start s) = results_display s \<and>
    error_banners (analyzeText_start s) = error_html validation_message # drop 1 (error_banners s)"
  using assms by (simp add: analyzeText_start_def)

theorem analyzeText_blank_input_witness:
  "js_trim (text_value (initial_page\<lparr>text_value := js '' ''\<rparr>)) = [] \<and>
   requests_sent (analyzeText_start (initial_page\<lparr>text_value := js '' ''\<rparr>)) = [] \<and>
   error_banners (analyzeText_start (initial_page\<lparr>text_value := js '' ''\<rparr>)) = [error_html validation_message]"
proof -
  have h: "js_trim (text_value (initial_page\<lparr>text_value := js '' ''\<rparr>)) = []" by (simp add: trim_eval)
  show ?thesis using h analyzeText_blank_input [OF h] by (simp add: initial_page_def)
qed

text \<open>
  C2. Otherwise \<open>analyzeText\<close> sends exactly one request, whose body is the trimmed
  text, shows the loading indicator, hides the results and removes the error banner.
\<close>

theorem analyzeText_sends_trimmed:
  assumes "js_trim (text_value s) \<noteq> []"
  shows "requests_sent (analyzeText_start s) = requests_sent s @ [js_trim (text_value s)] \<and>
    in_flight (analyzeText_start s) = in_flight s @ [js_trim (text_value s)] \<and>
    trimmed (js_trim (text_value s)) \<and>
    loading_display (analyzeText_start s) \<and> \<not> results_display (analyzeText_start s) \<and>
    error_banners (analyzeText_start s) = drop 1 (error_banners s)"
  using assms js_trim_trimmed by (simp add: analyzeText_start_def Let_def page_defs)

theorem analyzeText_sends_trimmed_witness:
  "js_trim (text_value (initial_page\<lparr>text_value := js '' a ''\<rparr>)) \<noteq> [] \<and>
   requests_sent (analyzeText_start (initial_page\<lparr>text_value := js '' a ''\<rparr>)) = [js ''a''] \<and>
   loading_display (analyzeText_start (initial_page\<lparr>text_value := js '' a ''\<rparr>))"
proof -
  have t: "js_trim (text_value (initial_page\<lparr>text_value := js '' a ''\<rparr>)) = js ''a''" by (simp add: trim_eval)
  then have h: "js_trim (text_value (initial_page\<lparr>text_value := js '' a ''\<rparr>)) \<noteq> []" by simp
  show ?thesis using h t analyzeText_sends_trimmed [OF h] by (simp add: initial_page_def)
qed

text \<open>
  C3. When the server answers with \<open>ok\<close> and \<open>success\<close> and both arrays, the
  continuation of \<open>analyzeText\<close> writes the three counters, replaces both charts by new
  instances of the chart data, writes the table of the word data, shows the results and
  hides the loading indicator; nothing else changes.
\<close>

theorem settle_success:
  assumes "chart_inv s" "success data" "chart_data data = Some cd" "words_data data = Some wd"
  shows "analyzeText_settle (Http_response True (Some data)) s =
    s\<lparr>barChart := Some (next_chart_id s), pieChart := Some (Suc (next_chart_id s)),
      live_charts := [(next_chart_id s, bar_config (map word cd) (map count' cd) (generateColors (length cd))),
                      (Suc (next_chart_id s), pie_config (map word cd) (map count' cd) (generateColors (length cd)))],
      next_chart_id := Suc (Suc (next_chart_id s)),
      loading_display := False, results_display := True,
      stats_html := [json_number_html (total_words data), json_number_html (unique_words data), decimal (length cd)],
      table_html := snd (displayTable wd)\<rparr>"
proof -
  let ?s1 = "s\<lparr>stats_html := [json_number_html (total_words data),
                     json_number_html (unique_words data), decimal (length cd)]\<rparr>"
  have "chart_inv ?s1" using assms(1) by (simp add: chart_inv_def)
  note dc = displayCharts_result [OF this, of cd]
  show ?thesis
    using assms dc by (simp add: analyzeText_settle_def displayResults_def displayStats_def page_defs)
qed

theorem settle_success_witness:
  "chart_inv initial_page \<and> success (\<lparr>success = True, error = None, total_words = Some 1, unique_words = Some 1, chart_data = Some [\<lparr>word = js ''a'', count' = 1\<rparr>], words_data = Some [\<lparr>word = js ''a'', count' = 1\<rparr>]\<rparr>) \<and>
   results_display (analyzeText_settle (Http_response True (Some (\<lparr>success = True, error = None, total_words = Some 1, unique_words = Some 1, chart_data = Some [\<lparr>word = js ''a'', count' = 1\<rparr>], words_data = Some [\<lparr>word = js ''a'', count' = 1\<rparr>]\<rparr>))) initial_page) \<and>
   stats_html (analyzeText_settle (Http_response True (Some (\<lparr>success = True, error = None, total_words = Some 1, unique_words = Some 1, chart_data = Some [\<lparr>word = js ''a'', count' = 1\<rparr>], words_data = Some [\<lparr>word = js ''a'', count' = 1\<rparr>]\<rparr>))) initial_page) = [decimal 1, decimal 1, decimal 1]"
proof -
  have i: "chart_inv initial_page" by (simp add: chart_inv_def initial_page_def)
  show ?thesis
    using i settle_success [OF i, of "\<lparr>success = True, error = None, total_words = Some 1, unique_words = Some 1, chart_data = Some [\<lparr>word = js ''a'', count' = 1\<rparr>], words_data = Some [\<lparr>word = js ''a'', count' = 1\<rparr>]\<rparr>" "[\<lparr>word = js ''a'', count' = 1\<rparr>]" "[\<lparr>word = js ''a'', count' = 1\<rparr>]"]
    by (simp add: json_number_html_def int_to_jsstr_def)
qed

text \<open>
  C4. When the server answers but not with both \<open>ok\<close> and \<open>success\<close>, the banner
  shows the server's \<open>error\<close> if it is a non-empty string and the fallback message
  otherwise; the loading indicator is hidden, and the results panel, the table and the
  charts are unchanged.
\<close>

theorem settle_service_error:
  assumes "\<not> (ok \<and> success data)"
  shows "error_banners (analyzeText_settle (Http_response ok (Some data)) s) =
      error_html (case error data of Some m \<Rightarrow> if m = [] then fallback_message else m | None \<Rightarrow> fallback_message)
      # drop 1 (error_banners s) \<and>
    \<not> loading_display (analyzeText_settle (Http_response ok (Some data)) s) \<and>
    results_display (analyzeText_settle (Http_response ok (Some data)) s) = results_display s \<and>
    table_html (analyzeText_settle (Http_response ok (Some data)) s) = table_html s \<and>
    live_charts (analyzeText_settle (Http_response ok (Some data)) s) = live_charts s"
proof -
  have "analyzeText_settle (Http_response ok (Some data)) s =
      showLoading False (showError (error_or_fallback (error data)) s)"
    by (simp only: analyzeText_settle_def fetch_outcome.case option.case if_not_P [OF assms])
  then show ?thesis by (simp add: error_or_fallback_def page_defs)
qed

theorem settle_service_error_witness:
  "\<not> (True \<and> success (\<lparr>success = False, error = Some (js ''text too long''), total_words = None, unique_words = None, chart_data = None, words_data = None\<rparr>)) \<and>
   error_banners (analyzeText_settle (Http_response True (Some (\<lparr>success = False, error = Some (js ''text too long''), total_words = None, unique_words = None, chart_data = None, words_data = None\<rparr>))) initial_page) =
     [error_html (js ''text too long'')] \<and>
   \<not> results_display (analyzeText_settle (Http_response True (Some (\<lparr>success = False, error = Some (js ''text too long''), total_words = None, unique_words = None, chart_data = None, words_data = None\<rparr>))) initial_page)"
proof -
  have h: "\<not> (True \<and> success (\<lparr>success = False, error = Some (js ''text too long''), total_words = None, unique_words = None, chart_data = None, words_data = None\<rparr>))" by simp
  show ?thesis using h settle_service_error [OF h, of initial_page] by (simp add: initial_page_def)
qed

text \<open>
  C5. When the request fails in transport, or the answer is not JSON, the banner shows
  the fixed network message, the loading indicator is hidden and the results panel and the
  charts are unchanged.
\<close>

theorem settle_network_error:
  assumes "r = Transport_failure \<or> r = Http_response ok None"
  shows "error_banners (analyzeText_settle r s) = error_html network_message # drop 1 (error_banners s) \<and>
    \<not> loading_display (analyzeText_settle r s) \<and>
    results_display (analyzeText_settle r s) = results_display s \<and>
    live_charts (analyzeText_settle r s) = live_charts s"
  using assms by (auto simp: analyzeText_settle_def page_defs)

theorem settle_network_error_witness:
  "(Transport_failure = Transport_failure \<or> Transport_failure = Http_response False None) \<and>
   error_banners (analyzeText_settle Transport_failure initial_page) = [error_html network_message] \<and>
   \<not> loading_display (analyzeText_settle Transport_failure initial_page)"
proof -
  have h: "Transport_failure = Transport_failure \<or> Transport_failure = Http_response False None" by simp
  show ?thesis using h settle_network_error [OF h, of initial_page] by (simp add: initial_page_def)
qed

subsection \<open>Invariants of the reachable states\<close>

text \<open>
  C6. In every reachable state the page holds at most one error banner: \<open>showError\<close>
  removes the banner before it inserts a new one.
\<close>

theorem reachable_one_banner: "reachable s \<Longrightarrow> length (error_banners s) \<le> 1"
  using reachable_page_inv by (simp add: page_inv_def)

theorem reachable_one_banner_witness:
  "reachable (analyzeText_start initial_page) \<and> length (error_banners (analyzeText_start initial_page)) \<le> 1"
proof -
  have h: "reachable (analyzeText_start initial_page)"
    by (rule reachable.step [OF reachable.init, of Click_analyze]) simp
  show ?thesis using h reachable_one_banner [OF h] by simp
qed

text \<open>
  C7. In every reachable state the loading indicator is shown only while some request is
  pending.
\<close>

theorem reachable_loading_pending: "reachable s \<Longrightarrow> loading_display s \<Longrightarrow> in_flight s \<noteq> []"
  using reachable_page_inv by (simp add: page_inv_def)

theorem reachable_loading_pending_witness:
  "reachable (analyzeText_start (initial_page\<lparr>text_value := js '' a ''\<rparr>)) \<and> loading_display (analyzeText_start (initial_page\<lparr>text_value := js '' a ''\<rparr>)) \<and>
   in_flight (analyzeText_start (initial_page\<lparr>text_value := js '' a ''\<rparr>)) \<noteq> []"
proof -
  have r1: "reachable (initial_page\<lparr>text_value := js '' a ''\<rparr>)"
    by (rule reachable.step [OF reachable.init, of "Input (js '' a '')"]) simp
  have h: "reachable (analyzeText_start (initial_page\<lparr>text_value := js '' a ''\<rparr>))"
    by (rule reachable.step [OF r1, of Click_analyze]) simp
  have l: "loading_display (analyzeText_start (initial_page\<lparr>text_value := js '' a ''\<rparr>))"
    by (simp add: analyzeText_start_def trim_eval page_defs Let_def)
  show ?thesis using h l reachable_loading_pending [OF h l] by simp
qed

text \<open>
  C8. In every reachable state the live chart instances are exactly those the handles
  \<open>barChart\<close> and \<open>pieChart\<close> name, one per canvas: no instance leaks and no
  canvas is bound twice.
\<close>

theorem reachable_chart_registry: "reachable s \<Longrightarrow> chart_inv s"
  using reachable_page_inv by (simp add: page_inv_def)

theorem reachable_chart_registry_witness:
  "reachable initial_page \<and> chart_inv initial_page"
  using reachable_chart_registry [OF reachable.init] reachable.init by simp


subsection \<open>Request bodies\<close>

lemma requests_sent_start:
  "requests_sent (analyzeText_start s) =
     requests_sent s @ (if js_trim (text_value s) = [] then [] else [js_trim (text_value s)])"
  by (simp add: analyzeText_start_def Let_def page_defs)

lemma settle_frame:
  assumes "chart_inv s"
  shows "requests_sent (analyzeText_settle r s) = requests_sent s \<and>
    in_flight (analyzeText_settle r s) = in_flight s \<and> \<not> loading_display (analyzeText_settle r s)"
proof -
  have fr: "requests_sent (completion_state (displayResults data s)) = requests_sent s \<and>
      in_flight (completion_state (displayResults data s)) = in_flight s" for data
    using displayResults_frame [OF assms refl] by simp
  show ?thesis
  proof (cases r)
    case (Http_response ok body)
    then show ?thesis
    proof (cases body)
      case (Some data)
      with Http_response fr [of data] show ?thesis
        by (cases "displayResults data s") (simp_all add: analyzeText_settle_def page_defs)
    qed (simp add: analyzeText_settle_def page_defs)
  qed (simp add: analyzeText_settle_def page_defs)
qed

lemma requests_sent_valid:
  "reachable s \<Longrightarrow> list_all (\<lambda>p. p \<noteq> [] \<and> trimmed p) (requests_sent s)"
proof (induction rule: reachable.induct)
  case init
  then show ?case by (simp add: initial_page_def)
next
  case (step s e s')
  have inv: "chart_inv s" using reachable_page_inv [OF step.hyps(1)] by (simp add: page_inv_def)
  show ?case
  proof (cases e)
    case (Fetch_settled i r)
    with step.hyps(2) have "s' = analyzeText_settle r (s\<lparr>in_flight := remove_nth i (in_flight s)\<rparr>)"
      by (simp split: if_splits)
    with inv step.IH show ?thesis by (simp add: settle_frame)
  qed (use step js_trim_trimmed in \<open>auto simp: requests_sent_start split: if_splits\<close>)
qed

text \<open>
  C18. Every body ever posted to \<open>/analyze\<close> is non-empty and has no white space or
  line terminator at either end: the invariant of the spec's \<open>AnalysisRequest\<close>, kept
  by every event of the page.
\<close>

theorem reachable_requests_valid:
  "reachable s \<Longrightarrow> list_all (\<lambda>p. p \<noteq> [] \<and> trimmed p) (requests_sent s)"
  by (rule requests_sent_valid)

theorem reachable_requests_valid_witness:
  "reachable (analyzeText_start (initial_page\<lparr>text_value := js '' a ''\<rparr>)) \<and>
   list_all (\<lambda>p. p \<noteq> [] \<and> trimmed p) (requests_sent (analyzeText_start (initial_page\<lparr>text_value := js '' a ''\<rparr>)))"
proof -
  have r1: "reachable (initial_page\<lparr>text_value := js '' a ''\<rparr>)"
    by (rule reachable.step [OF reachable.init, of "Input (js '' a '')"]) simp
  have h: "reachable (analyzeText_start (initial_page\<lparr>text_value := js '' a ''\<rparr>))"
    by (rule reachable.step [OF r1, of Click_analyze]) simp
  show ?thesis using h reachable_requests_valid [OF h] by simp
qed

text \<open>
  C19. A key press sends a request only when it is Enter with Ctrl held and the
  \<open>DOMContentLoaded\<close> handler has installed the listener; the request it sends is
  the trimmed text, appended after every earlier one.
\<close>

theorem key_down_sends_only_ctrl_enter:
  assumes "page_step s (Key_down k ctrl) = Some s'" and "requests_sent s' \<noteq> requests_sent s"
  shows "key_listener s \<and> k = js ''Enter'' \<and> ctrl \<and> requests_sent s' = requests_sent s @ [js_trim (text_value s)]"
  using assms by (auto simp: requests_sent_start split: if_splits)

theorem key_down_sends_only_ctrl_enter_witness:
  "page_step (initial_page\<lparr>key_listener := True, text_value := js ''hi''\<rparr>) (Key_down (js ''Enter'') True) =
     Some (analyzeText_start (initial_page\<lparr>key_listener := True, text_value := js ''hi''\<rparr>)) \<and>
   requests_sent (analyzeText_start (initial_page\<lparr>key_listener := True, text_value := js ''hi''\<rparr>)) \<noteq>
     requests_sent (initial_page\<lparr>key_listener := True, text_value := js ''hi''\<rparr>) \<and>
   requests_sent (analyzeText_start (initial_page\<lparr>key_listener := True, text_value := js ''hi''\<rparr>)) = [js ''hi'']"
proof -
  let ?s = "initial_page\<lparr>key_listener := True, text_value := js ''hi''\<rparr>"
  have st: "page_step ?s (Key_down (js ''Enter'') True) = Some (analyzeText_start ?s)" by simp
  have ne: "requests_sent (analyzeText_start ?s) \<noteq> requests_sent ?s"
    by (simp add: requests_sent_start trim_eval initial_page_def)
  have "requests_sent (analyzeText_start ?s) = requests_sent ?s @ [js_trim (text_value ?s)]"
    using key_down_sends_only_ctrl_enter [OF st ne] by simp
  then show ?thesis using st ne by (simp add: trim_eval initial_page_def)
qed

end
