(* ===== verification/View_Spec.thy ===== *)
theory View_Spec
  imports Controller
begin

text \<open>
  The specification's view of the page, and the code against it. The specification
  (sections 3, 4.1 and 7) describes a derived view state, \<open>loading\<close>, the error shown and
  whether results are shown, and two operations on it: a submission resets it (loading,
  no error, no results) and a settlement ends loading and shows either the results or one
  error, classified as a service error (the server's message or a fallback) or a network
  error (a fixed message). The record \<open>view\<close>, \<open>spec_submit\<close>, \<open>spec_settle\<close> and
  \<open>spec_outcome\<close> are that specification; \<open>abs_view\<close> reads it off a page state of
  the code. The lemmas show that a submission of non-blank text followed by the
  settlement of its own request refines \<open>spec_settle \<circ> spec_submit\<close> for every
  response that satisfies the specification's \<open>AnalysisResponse\<close> invariant, whatever other
  requests are pending, and that every chart live in a reachable state has as many labels
  and colours as values. The one kind of received response outside the refinement is a
  body that is not JSON: the specification calls it a service error with the fallback
  message, the code shows the network message (theory Controller, \<open>settle_network_error\<close>).
\<close>

record view =
  v_loading :: bool
  v_error :: "jsstr option"
  v_results :: bool

datatype spec_outcome = Results analysis_response | Service_error jsstr | Network_error

definition response_wf :: "analysis_response \<Rightarrow> bool" where
  "response_wf d \<longleftrightarrow>
     (success d \<longrightarrow> total_words d \<noteq> None \<and> unique_words d \<noteq> None \<and> chart_data d \<noteq> None \<and> words_data d \<noteq> None) \<and>
     (\<not> success d \<longrightarrow> error d \<noteq> None)"

text \<open>
  An outcome meets the specification's data model when no response arrived, or the
  response's body is an \<open>AnalysisResponse\<close> (section 3) satisfying its invariant.
\<close>

definition outcome_wf :: "fetch_outcome \<Rightarrow> bool" where
  "outcome_wf r =
     (case r of
        Transport_failure \<Rightarrow> True
      | Http_response ok body \<Rightarrow> (case body of Some d \<Rightarrow> response_wf d | None \<Rightarrow> False))"

text \<open>
  The specification's classification of a settlement (sections 4.1 and 7): no response is
  a \<open>NetworkError\<close>; a received response that is not ok, or whose payload's
  \<open>success\<close> is not true, is a \<open>ServiceError\<close> carrying the payload's error message
  if there is one (a non-empty string) and the generic fallback otherwise, a body that is
  not JSON included; anything else shows the results.
\<close>

definition spec_outcome :: "fetch_outcome \<Rightarrow> spec_outcome" where
  "spec_outcome r =
     (case r of
        Transport_failure \<Rightarrow> Network_error
      | Http_response ok body \<Rightarrow>
          (case body of
             None \<Rightarrow> Service_error fallback_message
           | Some d \<Rightarrow>
               if ok \<and> success d then Results d
               else Service_error (case error d of Some m \<Rightarrow> if m = [] then fallback_message else m
                                     | None \<Rightarrow> fallback_message)))"

definition spec_submit :: "view \<Rightarrow> view" where
  "spec_submit v = v\<lparr>v_loading := True, v_error := None, v_results := False\<rparr>"

definition spec_settle :: "spec_outcome \<Rightarrow> view \<Rightarrow> view" where
  "spec_settle out v =
     (case out of
        Results d \<Rightarrow> v\<lparr>v_loading := False, v_error := None, v_results := True\<rparr>
      | Service_error m \<Rightarrow> v\<lparr>v_loading := False, v_error := Some m, v_results := False\<rparr>
      | Network_error \<Rightarrow> v\<lparr>v_loading := False, v_error := Some network_message, v_results := False\<rparr>)"

definition banner_message :: "jsstr \<Rightarrow> jsstr" where
  "banner_message b = drop (length (error_html [])) b"

definition abs_view :: "page \<Rightarrow> view" where
  "abs_view s =
     \<lparr>v_loading = loading_display s,
      v_error = (case error_banners s of [] \<Rightarrow> None | b # _ \<Rightarrow> Some (banner_message b)),
      v_results = results_display s\<rparr>"

subsection \<open>Lemmas\<close>

lemma banner_message_error_html [simp]: "banner_message (error_html m) = m"
  by (simp add: banner_message_def error_html_def)

lemma displayResults_success:
  assumes "chart_inv s" "chart_data d = Some cd" "words_data d = Some wd"
  shows "\<exists>s'. displayResults d s = Normal () s' \<and> results_display s' \<and> error_banners s' = error_banners s"
proof -
  let ?s1 = "s\<lparr>stats_html := [json_number_html (total_words d), json_number_html (unique_words d),
                            decimal (length cd)]\<rparr>"
  have "chart_inv ?s1" using assms(1) by (simp add: chart_inv_def)
  note dc = displayCharts_result [OF this, of cd]
  show ?thesis using assms(2,3) dc
    by (simp add: displayResults_def displayStats_def showResults_def)
qed

lemma settle_abs_view:
  assumes "chart_inv t" "error_banners t = []" "\<not> results_display t" "outcome_wf r"
  shows "abs_view (analyzeText_settle r t) = spec_settle (spec_outcome r) v"
proof (cases r)
  case Transport_failure
  then show ?thesis using assms
    by (cases v) (simp add: analyzeText_settle_def spec_outcome_def spec_settle_def abs_view_def page_defs)
next
  case (Http_response ok body)
  show ?thesis
  proof (cases body)
    case None
    then show ?thesis using assms(4) Http_response by (simp add: outcome_wf_def)
  next
    case (Some d)
    show ?thesis
    proof (cases "ok \<and> success d")
      case True
      with assms(4) Http_response Some obtain cd wd where "chart_data d = Some cd" "words_data d = Some wd"
        by (auto simp: outcome_wf_def response_wf_def)
      from displayResults_success [OF assms(1) this] obtain s' where
        "displayResults d t = Normal () s'" "results_display s'" "error_banners s' = error_banners t"
        by blast
      with True Http_response Some assms(2) show ?thesis
        by (cases v) (simp add: analyzeText_settle_def spec_outcome_def spec_settle_def abs_view_def page_defs)
    next
      case False
      with Http_response Some assms(2,3) show ?thesis
        by (cases v) (simp add: analyzeText_settle_def spec_outcome_def spec_settle_def abs_view_def page_defs
            if_not_P [OF False] error_or_fallback_def split: option.split)
    qed
  qed
qed

lemma start_nonblank:
  assumes "js_trim (text_value s) \<noteq> []"
  shows "analyzeText_start s =
    s\<lparr>loading_display := True, results_display := False, error_banners := drop 1 (error_banners s),
      in_flight := in_flight s @ [js_trim (text_value s)],
      requests_sent := requests_sent s @ [js_trim (text_value s)]\<rparr>"
  using assms by (simp add: analyzeText_start_def Let_def page_defs)

lemma displayResults_charts_wf:
  assumes "chart_inv s" "list_all (chart_wf \<circ> snd) (live_charts s)"
  shows "list_all (chart_wf \<circ> snd) (live_charts (completion_state (displayResults d s)))"
proof (cases "chart_data d")
  case None
  then show ?thesis using assms(2) by (simp add: displayResults_def displayStats_def)
next
  case (Some cd)
  let ?s1 = "s\<lparr>stats_html := [json_number_html (total_words d), json_number_html (unique_words d),
                            decimal (length cd)]\<rparr>"
  have inv1: "chart_inv ?s1" using assms(1) by (simp add: chart_inv_def)
  then obtain s2 where dc: "displayCharts cd ?s1 = Normal () s2"
    using displayCharts_result by blast
  have "list_all (chart_wf \<circ> snd) (live_charts s2)" by (rule displayCharts_wf [OF inv1 dc])
  with Some dc show ?thesis
    by (cases "words_data d") (simp_all add: displayResults_def displayStats_def showResults_def)
qed

lemma settle_charts_wf:
  assumes "chart_inv s" "list_all (chart_wf \<circ> snd) (live_charts s)"
  shows "list_all (chart_wf \<circ> snd) (live_charts (analyzeText_settle r s))"
proof -
  have dr: "list_all (chart_wf \<circ> snd) (live_charts (completion_state (displayResults d s)))" for d
    by (rule displayResults_charts_wf [OF assms])
  show ?thesis
  proof (cases r)
    case (Http_response ok body)
    then show ?thesis
    proof (cases body)
      case (Some d)
      with Http_response dr [of d] assms(2) show ?thesis
        by (cases "displayResults d s") (simp_all add: analyzeText_settle_def page_defs)
    qed (use assms(2) in \<open>simp add: analyzeText_settle_def page_defs\<close>)
  qed (use assms(2) in \<open>simp add: analyzeText_settle_def page_defs\<close>)
qed

text \<open>
  C22. A submission of non-blank text, followed by the settlement of the request it sent
  (other requests may be pending), refines the specification: the view afterwards is
  \<open>spec_settle\<close> of the specification's classification of the outcome applied to
  \<open>spec_submit\<close> of the view before, for every outcome whose response satisfies the
  specification's \<open>AnalysisResponse\<close> invariant. In particular the loading indicator is
  hidden and exactly one of an error and the results is shown.
\<close>

theorem submit_settle_refines:
  assumes "page_inv s" "js_trim (text_value s) \<noteq> []" "outcome_wf r"
  shows "\<exists>s'. run s [Click_analyze, Fetch_settled (length (in_flight s)) r] = Some s' \<and>
    abs_view s' = spec_settle (spec_outcome r) (spec_submit (abs_view s)) \<and> in_flight s' = in_flight s"
proof -
  let ?t = "js_trim (text_value s)"
  let ?t1 = "s\<lparr>loading_display := True, results_display := False, error_banners := drop 1 (error_banners s),
      in_flight := in_flight s, requests_sent := requests_sent s @ [?t]\<rparr>"
  have rm: "remove_nth (length (in_flight s)) (in_flight s @ [?t]) = in_flight s"
    by (simp add: remove_nth_def)
  have r: "run s [Click_analyze, Fetch_settled (length (in_flight s)) r] = Some (analyzeText_settle r ?t1)"
    using rm by (simp add: start_nonblank [OF assms(2)])
  have inv: "chart_inv ?t1" "error_banners ?t1 = []" "\<not> results_display ?t1"
    using assms(1) by (simp_all add: page_inv_def chart_inv_def)
  show ?thesis
    using r settle_abs_view [OF inv assms(3)] settle_frame [OF inv(1), of r] by simp
qed

theorem submit_settle_refines_witness:
  "page_inv (initial_page\<lparr>text_value := js ''a''\<rparr>) \<and> js_trim (text_value (initial_page\<lparr>text_value := js ''a''\<rparr>)) \<noteq> [] \<and>
   outcome_wf Transport_failure \<and>
   (\<exists>s'. run (initial_page\<lparr>text_value := js ''a''\<rparr>) [Click_analyze, Fetch_settled 0 Transport_failure] = Some s' \<and>
      abs_view s' = \<lparr>v_loading = False, v_error = Some network_message, v_results = False\<rparr>)"
proof -
  have h: "page_inv (initial_page\<lparr>text_value := js ''a''\<rparr>)"
    by (simp add: page_inv_def initial_page_def chart_inv_def)
  have t: "js_trim (text_value (initial_page\<lparr>text_value := js ''a''\<rparr>)) \<noteq> []"
    by (simp add: trim_eval)
  have o: "outcome_wf Transport_failure" by (simp add: outcome_wf_def)
  obtain s' where r: "run (initial_page\<lparr>text_value := js ''a''\<rparr>)
      [Click_analyze, Fetch_settled (length (in_flight (initial_page\<lparr>text_value := js ''a''\<rparr>))) Transport_failure] = Some s'"
    and v: "abs_view s' = spec_settle (spec_outcome Transport_failure) (spec_submit (abs_view (initial_page\<lparr>text_value := js ''a''\<rparr>)))"
    using submit_settle_refines [OF h t o] by blast
  have "length (in_flight (initial_page\<lparr>text_value := js ''a''\<rparr>)) = 0" by (simp add: initial_page_def)
  moreover have "spec_settle (spec_outcome Transport_failure) (spec_submit (abs_view (initial_page\<lparr>text_value := js ''a''\<rparr>))) =
      \<lparr>v_loading = False, v_error = Some network_message, v_results = False\<rparr>"
    by (simp add: spec_settle_def spec_outcome_def spec_submit_def abs_view_def)
  ultimately show ?thesis using r v h t o by auto
qed

text \<open>
  C23. In every reachable state each live chart is well formed: each value of the bar and
  doughnut charts has a label, a background colour and, on the bar chart, a border colour,
  since \<open>generateColors\<close> is called with the length of the data.
\<close>

theorem reachable_charts_wf: "reachable s \<Longrightarrow> list_all (chart_wf \<circ> snd) (live_charts s)"
proof (induction rule: reachable.induct)
  case init
  then show ?case by (simp add: initial_page_def)
next
  case (step s e s')
  have inv: "chart_inv s" using reachable_page_inv [OF step.hyps(1)] by (simp add: page_inv_def)
  show ?case
  proof (cases e)
    case (Fetch_settled i r)
    with step.hyps(2) have "s' = analyzeText_settle r (s\<lparr>in_flight := remove_nth i (in_flight s)\<rparr>)"
      by (simp split: if_splits)
    moreover have "chart_inv (s\<lparr>in_flight := remove_nth i (in_flight s)\<rparr>)"
      using inv by simp
    moreover have "list_all (chart_wf \<circ> snd) (live_charts (s\<lparr>in_flight := remove_nth i (in_flight s)\<rparr>))"
      using step.IH by (simp add: comp_def)
    ultimately show ?thesis using settle_charts_wf by blast
  qed (use step in \<open>auto simp: analyzeText_start_def Let_def page_defs split: if_splits\<close>)
qed

theorem reachable_charts_wf_witness:
  "reachable initial_page \<and> list_all (chart_wf \<circ> snd) (live_charts initial_page)"
  using reachable_charts_wf [OF reachable.init] reachable.init by simp

end
