(* ===== verification/Json.thy ===== *)
theory Json
  imports JsBuiltins
begin

text \<open>
  The request body of \<open>analyzeText\<close>, \<open>JSON.stringify({ text: text })\<close> (script.js
  line 24), and the decoder on the other side of the wire. \<open>JSON.stringify\<close> is a
  built-in, modelled from the ECMAScript specification (SerializeJSONObject and
  QuoteJSONString, in the well-formed form of ES2019): a string is written between quotes,
  with the two-character escapes for backspace, tab, line feed, form feed, carriage
  return, quote and backslash, \<open>\u\<close> and four lower-case hex digits for the other
  control code units and for every surrogate that is not half of a pair, and every other
  code unit as itself. The decoder \<open>json_chars\<close> reads a JSON string literal as ECMA-404
  defines it, and \<open>parse_text_object\<close> reads the one object shape the script sends.
  The lemmas show that the decoder gives back exactly the text that was encoded, for
  every sequence of code units, and that the encoded text is well-formed UTF-16.
\<close>

subsection \<open>Code units\<close>

definition is_lead :: "16 word \<Rightarrow> bool" where
  "is_lead c \<longleftrightarrow> 0xD800 \<le> c \<and> c \<le> 0xDBFF"

definition is_trail :: "16 word \<Rightarrow> bool" where
  "is_trail c \<longleftrightarrow> 0xDC00 \<le> c \<and> c \<le> 0xDFFF"

definition hex_digit :: "nat \<Rightarrow> 16 word" where
  "hex_digit n = (if n < 10 then of_nat (48 + n) else of_nat (87 + n))"

definition hex_value :: "16 word \<Rightarrow> nat option" where
  "hex_value c =
     (if 48 \<le> c \<and> c \<le> 57 then Some (unat c - 48)
      else if 97 \<le> c \<and> c \<le> 102 then Some (unat c - 87)
      else if 65 \<le> c \<and> c \<le> 70 then Some (unat c - 55)
      else None)"

subsection \<open>JSON.stringify\<close>

definition unicode_escape :: "16 word \<Rightarrow> jsstr" where
  "unicode_escape c =
     [92, 117, hex_digit (unat c div 4096), hex_digit (unat c div 256 mod 16),
      hex_digit (unat c div 16 mod 16), hex_digit (unat c mod 16)]"

definition json_escape_unit :: "16 word \<Rightarrow> jsstr" where
  "json_escape_unit c =
     (if c = 8 then [92, 98] else if c = 9 then [92, 116] else if c = 10 then [92, 110]
      else if c = 12 then [92, 102] else if c = 13 then [92, 114]
      else if c = 34 then [92, 34] else if c = 92 then [92, 92]
      else if c < 32 \<or> is_lead c \<or> is_trail c then unicode_escape c
      else [c])"

fun quote_units :: "jsstr \<Rightarrow> jsstr" where
  "quote_units [] = []"
| "quote_units [c] = json_escape_unit c"
| "quote_units (c # d # r) =
     (if is_lead c \<and> is_trail d then c # d # quote_units r
      else json_escape_unit c @ quote_units (d # r))"

definition json_quote :: "jsstr \<Rightarrow> jsstr" where
  "json_quote s = 34 # quote_units s @ [34]"

definition request_body :: "jsstr \<Rightarrow> jsstr" where
  "request_body text = js ''{'' @ json_quote (js ''text'') @ js '':'' @ json_quote text @ js ''}''"

subsection \<open>JSON.parse of a string literal\<close>

definition hex4 :: "16 word \<Rightarrow> 16 word \<Rightarrow> 16 word \<Rightarrow> 16 word \<Rightarrow> 16 word option" where
  "hex4 a b c d =
     (case (hex_value a, hex_value b, hex_value c, hex_value d) of
        (Some w, Some x, Some y, Some z) \<Rightarrow> Some (of_nat (w * 4096 + x * 256 + y * 16 + z))
      | _ \<Rightarrow> None)"

definition simple_unescape :: "16 word \<Rightarrow> 16 word option" where
  "simple_unescape e =
     (if e = 34 then Some 34 else if e = 92 then Some 92 else if e = 47 then Some 47
      else if e = 98 then Some 8 else if e = 102 then Some 12 else if e = 110 then Some 10
      else if e = 114 then Some 13 else if e = 116 then Some 9 else None)"

fun json_chars :: "jsstr \<Rightarrow> (jsstr \<times> jsstr) option" where
  "json_chars [] = None"
| "json_chars (c # r) =
     (if c = 34 then Some ([], r)
      else if c < 32 then None
      else if c \<noteq> 92 then map_option (apfst (Cons c)) (json_chars r)
      else case r of
             [] \<Rightarrow> None
           | e # r' \<Rightarrow>
               if e = 117 then
                 (case r' of
                    a # b # c' # d # r'' \<Rightarrow>
                      (case hex4 a b c' d of
                         None \<Rightarrow> None
                       | Some x \<Rightarrow> map_option (apfst (Cons x)) (json_chars r''))
                  | _ \<Rightarrow> None)
               else
                 (case simple_unescape e of
                    None \<Rightarrow> None
                  | Some x \<Rightarrow> map_option (apfst (Cons x)) (json_chars r')))"

definition parse_text_object :: "jsstr \<Rightarrow> jsstr option" where
  "parse_text_object b =
     (let pre = js ''{'' @ json_quote (js ''text'') @ js '':'' @ [34] in
      if take (length pre) b = pre then
        (case json_chars (drop (length pre) b) of
           Some (t, r) \<Rightarrow> if r = js ''}'' then Some t else None
         | None \<Rightarrow> None)
      else None)"

fun utf16_wf :: "jsstr \<Rightarrow> bool" where
  "utf16_wf [] = True"
| "utf16_wf (c # r) =
     (if is_lead c then (case r of [] \<Rightarrow> False | d # r' \<Rightarrow> is_trail d \<and> utf16_wf r')
      else \<not> is_trail c \<and> utf16_wf r)"

subsection \<open>Lemmas\<close>

lemma hex_value_of_nat:
  assumes "k < 65536"
  shows "hex_value (word_of_nat k) =
    (if 48 \<le> k \<and> k \<le> 57 then Some (k - 48) else if 97 \<le> k \<and> k \<le> 102 then Some (k - 87)
     else if 65 \<le> k \<and> k \<le> 70 then Some (k - 55) else None)"
proof -
  have u: "unat (word_of_nat k :: 16 word) = k" using assms by (simp add: unat_of_nat)
  show ?thesis by (simp only: hex_value_def word_le_nat_alt u) simp
qed

lemma hex_value_digit: "n < 16 \<Longrightarrow> hex_value (hex_digit n) = Some n"
  unfolding hex_digit_def by (simp only: if_distrib [of hex_value] hex_value_of_nat) simp

lemma digits_16:
  fixes n :: nat
  shows "n div 4096 * 4096 + n div 256 mod 16 * 256 + n div 16 mod 16 * 16 + n mod 16 = n"
proof -
  have a: "n div 4096 = n div 256 div 16" and b: "n div 256 = n div 16 div 16"
    by (simp_all add: div_mult2_eq [symmetric])
  have "n = n div 16 * 16 + n mod 16" "n div 16 = n div 16 div 16 * 16 + n div 16 mod 16"
    "n div 256 = n div 256 div 16 * 16 + n div 256 mod 16"
    by simp_all
  then show ?thesis unfolding a b by linarith
qed

lemma hex4_unicode:
  "hex4 (hex_digit (unat c div 4096)) (hex_digit (unat c div 256 mod 16))
        (hex_digit (unat c div 16 mod 16)) (hex_digit (unat c mod 16)) = Some c"
proof -
  have "unat c < 65536" using unsigned_less [of c] by simp
  then have "unat c div 4096 < 16" by simp
  then show ?thesis by (simp add: hex4_def hex_value_digit digits_16)
qed

lemma surrogate_not_ascii: "is_lead c \<or> is_trail c \<Longrightarrow> \<not> c < 128"
  by (auto simp: is_lead_def is_trail_def word_le_nat_alt word_less_nat_alt)

lemma unat_hex_digit: "n < 16 \<Longrightarrow> unat (hex_digit n) < 128"
  unfolding hex_digit_def by (simp only: if_distrib [of unat] unat_of_nat) simp

lemma json_chars_unicode_escape:
  "json_chars (unicode_escape c @ r) = map_option (apfst (Cons c)) (json_chars r)"
  by (simp add: unicode_escape_def hex4_unicode)

lemma json_chars_escape_unit:
  "json_chars (json_escape_unit c @ r) = map_option (apfst (Cons c)) (json_chars r)"
proof (cases "c \<in> {8, 9, 10, 12, 13, 34, 92}")
  case True
  then show ?thesis by (auto simp: json_escape_unit_def simple_unescape_def)
next
  case out: False
  show ?thesis
  proof (cases "c < 32 \<or> is_lead c \<or> is_trail c")
    case True
    with out have "json_escape_unit c = unicode_escape c" by (auto simp: json_escape_unit_def)
    then show ?thesis by (simp add: json_chars_unicode_escape)
  next
    case False
    with out have "json_escape_unit c = [c]" by (auto simp: json_escape_unit_def)
    with out False show ?thesis by simp
  qed
qed

lemma json_chars_quote_units: "json_chars (quote_units s @ 34 # r) = Some (s, r)"
proof (induction s rule: quote_units.induct)
  case (3 c d r')
  then show ?case
  proof (cases "is_lead c \<and> is_trail d")
    case True
    then have "\<not> c < 128" "\<not> d < 128" using surrogate_not_ascii by blast+
    then have "c \<noteq> 34 \<and> \<not> c < 32 \<and> c \<noteq> 92 \<and> d \<noteq> 34 \<and> \<not> d < 32 \<and> d \<noteq> 92"
      by (auto simp: word_less_nat_alt)
    with True 3 show ?thesis by simp
  next
    case False
    then have "quote_units (c # d # r') @ 34 # r = json_escape_unit c @ (quote_units (d # r') @ 34 # r)"
      by auto
    with False 3 show ?thesis by (simp only: json_chars_escape_unit) simp
  qed
qed (simp_all add: json_chars_escape_unit)

lemma utf16_wf_escape_unit: "utf16_wf (json_escape_unit c @ r) = utf16_wf r"
proof (cases "c \<in> {8, 9, 10, 12, 13, 34, 92}")
  case True
  then show ?thesis by (auto simp: json_escape_unit_def is_lead_def is_trail_def)
next
  case out: False
  show ?thesis
  proof (cases "c < 32 \<or> is_lead c \<or> is_trail c")
    case True
    with out have "json_escape_unit c = unicode_escape c" by (auto simp: json_escape_unit_def)
    moreover have "\<not> is_lead (hex_digit n)" "\<not> is_trail (hex_digit n)" if "n < 16" for n
      using surrogate_not_ascii unat_hex_digit [OF that] by (auto simp: word_less_nat_alt)
    moreover have "\<not> is_lead 92 \<and> \<not> is_trail 92 \<and> \<not> is_lead 117 \<and> \<not> is_trail 117"
      by (simp add: is_lead_def is_trail_def)
    moreover have "unat c < 65536" using unsigned_less [of c] by simp
    then have "unat c div 4096 < 16" by simp
    ultimately show ?thesis by (simp add: unicode_escape_def)
  next
    case False
    with out show ?thesis by (auto simp: json_escape_unit_def)
  qed
qed

lemma utf16_wf_append: "utf16_wf xs \<Longrightarrow> utf16_wf ys \<Longrightarrow> utf16_wf (xs @ ys)"
proof (induction xs rule: utf16_wf.induct)
  case (2 c r)
  then show ?case by (cases r) (auto split: if_splits)
qed simp

lemma utf16_wf_quote_units: "utf16_wf r \<Longrightarrow> utf16_wf (quote_units s @ r)"
proof (induction s rule: quote_units.induct)
qed (auto simp: utf16_wf_escape_unit)

subsection \<open>Properties\<close>

text \<open>
  C20. The body \<open>analyzeText\<close> posts, \<open>JSON.stringify({ text: text })\<close>, decodes back
  to exactly \<open>text\<close>, whatever code units it holds: quotes, backslashes, control
  characters, surrogate pairs and lone surrogates included.
\<close>

theorem request_body_roundtrip: "parse_text_object (request_body t) = Some t"
  by (simp add: parse_text_object_def request_body_def json_quote_def json_chars_quote_units)

text \<open>
  C21. The body is well-formed UTF-16, even when the text holds a lone surrogate
  (which \<open>JSON.stringify\<close> writes as a \<open>\u\<close> escape), so it can be sent as UTF-8.
\<close>

theorem request_body_utf16_wf: "utf16_wf (request_body t)"
proof -
  have w: "\<not> is_lead 34 \<and> \<not> is_trail 34" by (simp add: is_lead_def is_trail_def)
  have q: "utf16_wf (json_quote s)" for s
    using utf16_wf_quote_units [of "[34]" s] w by (simp add: json_quote_def)
  have a: "utf16_wf (js ''{'')" "utf16_wf (js '':'')" "utf16_wf (js ''}'')"
    by (simp_all add: is_lead_def is_trail_def)
  show ?thesis unfolding request_body_def
    by (intro utf16_wf_append q a)
qed

end
