(* ===== verification/Spec2Isabelle.thy ===== *)
theory Spec2Isabelle
  imports View_Spec Json Double
begin

text \<open>
  \<^bold>\<open>A verification development of the Word Frequency Visualizer client.\<close>

  The program is one script, src/static/script.js: the browser side of a dashboard that
  sends pasted text to a server endpoint \<open>/analyze\<close> and shows the word frequencies
  it returns as three counters, a bar chart and a doughnut chart (drawn by Chart.js) and a
  ranked table. Its parts and how they interact: the controller \<open>analyzeText\<close> validates
  the text, sends one request and, when it settles, either calls \<open>displayResults\<close>,
  which calls \<open>displayStats\<close>, \<open>displayCharts\<close> (which calls \<open>generateColors\<close>
  and keeps the two chart instances in the globals \<open>barChart\<close> and \<open>pieChart\<close>) and
  \<open>displayTable\<close>, or shows an error with \<open>showError\<close>; the \<open>DOMContentLoaded\<close>
  handler wires Ctrl+Enter in the text area to \<open>analyzeText\<close>.

  \<^bold>\<open>Theories.\<close>
  \<^item> Prelude: JavaScript strings as lists of UTF-16 code units (\<open>16 word list\<close>),
    statement completions (\<open>Normal\<close>/\<open>Throw\<close>, with the state left behind), shared
    list lemmas.
  \<^item> JsBuiltins: the ECMAScript functions the script calls, from the ECMAScript
    specification: \<open>trim\<close>, \<open>replace\<close>, number to string, exact division with NaN and
    the infinities, \<open>toFixed\<close>, and the stable \<open>Array.prototype.sort\<close>. Lemmas: trim
    strips exactly the white space at both ends and is idempotent; decimal strings read
    back; \<open>toFixed\<close>'s digits read back, its rounding is ECMAScript's choice of the
    nearest integer (larger on a tie); the comparator sort is \<open>sort_key\<close>.
  \<^item> Binary64: IEEE 754 binary64 rounding (to nearest, ties to even, subnormals,
    overflow to Infinity) as an executable function on rationals, and the script's
    \<open>/\<close> and \<open>*\<close> with it; the error of one rounding.
  \<^item> Colors: \<open>generateColors\<close> (its \<open>for\<close> loop as a recursive function with the
    measure \<open>count - i\<close>) and the border colours; C12, C26.
  \<^item> Table: \<open>displayTable\<close>, its sum, comparator sort and rows, the percentage cell
    \<open>table_percentage\<close> in binary64 (line 226), and the specification's exact value
    \<open>spec_percentage\<close> as a reference; C10.
  \<^item> Double: the percentage cell against the exact value and the specification's cell;
    C11, C27--C29.
  \<^item> Charts: the Chart.js registry (a model of the library's documented behaviour,
    not of repository code), the chart configurations and tooltips (the doughnut's
    percentage in binary64, line 202), \<open>displayCharts\<close>, the registry invariant
    \<open>chart_inv\<close>, the well-formedness \<open>chart_wf\<close> of a configuration; C9, C13.
  \<^item> Page: the page state (a record extending the chart state), the server's answer,
    the DOM helpers, \<open>displayStats\<close> and \<open>displayResults\<close>.
  \<^item> Controller: \<open>analyzeText\<close> split at its \<open>await\<close> into
    \<open>analyzeText_start\<close> and \<open>analyzeText_settle\<close>, the events and the step
    function \<open>page_step\<close>, the inductive \<open>reachable\<close>, the invariant \<open>page_inv\<close>
    proved for every reachable state by rule induction; C1--C8, C18, C19.
  \<^item> Json: the request body \<open>JSON.stringify({ text: text })\<close> (line 24), with
    ECMAScript's QuoteJSONString in its well-formed ES2019 form, and the JSON decoder of
    the receiving side (ECMA-404 string literals); C20, C21.
  \<^item> View_Spec: the specification's view state (loading, error shown, results shown),
    its operations \<open>spec_submit\<close> and \<open>spec_settle\<close>, its error taxonomy
    \<open>spec_outcome\<close> written from sections 4.1 and 7, and the abstraction
    \<open>abs_view\<close> of a page state; C22, C23.
  \<^item> This theory: the behaviours that span the components, found while modelling;
    C14--C17, C24, C25.

  \<^bold>\<open>Correspondence.\<close> Each definition carries the source's name where HOL allows it
  (\<open>count'\<close> for the field \<open>count\<close>, which names the multiplicity of a multiset). A
  JavaScript exception is a \<open>Throw\<close> completion carrying the state at the throw, so the
  partial effects of \<open>displayResults\<close> before a \<open>TypeError\<close> are kept, as in the
  browser. The asynchronous request is explicit: \<open>in_flight\<close> holds the requests not
  yet settled, and the environment settles any of them, in any order, with any outcome.
  The two percentages the script computes (the table's cell, line 226, and the doughnut
  tooltip, line 202) divide and multiply in binary64, as the browser does.

  \<^bold>\<open>What the lemmas show.\<close> The handlers' behaviour on every branch, the error paths
  included (C1--C5); invariants of every reachable state: at most one error banner, the
  loading indicator only while a request is pending, no leaked or doubly bound chart
  instance (C6--C9), every body ever sent non-empty and trimmed (C18), every live chart
  with a label and colours for every value (C23); the key handler sends only on
  Ctrl+Enter after the page has loaded (C19). The table's sort is the stable descending
  sort (C10); its rendered percentages lie in 0..100 (C11), are within
  \<open>1/2 + 2^-37\<close> hundredths of the exact value (C27) and within one hundredth of the
  specification's cell (C28), and add up to 100 within the specification's tolerance
  (C29). The colours cycle through the palette (C12) and the duplicated palette entry
  gives two of any nine words the same colour (C26); the doughnut tooltip divides by the
  chart's own dataset, within half a tenth of the exact percentage (C13). C14--C17 are
  behaviours of the code that the specification's words do not have: a validation error
  leaves old results visible next to the banner; overlapping requests hide the loading
  indicator while one is pending and can show an error and results together; an answer
  without \<open>words_data\<close> rebuilds the charts and then reports a network error. The body
  sent decodes back to exactly the validated text, whatever code units it holds, and is
  well-formed UTF-16 (C20, C21). A submission followed by the settlement of its own
  request refines the specification's view operations for every outcome whose response
  is an \<open>AnalysisResponse\<close>, whatever else is pending (C22): there the specification's
  \<open>exactly one of error and results\<close> holds. C24 and C25 show that the table and the
  error banner put the server's words and messages into \<open>innerHTML\<close> verbatim, so
  markup in them is interpreted by the browser.

  \<^bold>\<open>Not modelled.\<close> The markup, styling and constant chart options (fonts, paddings,
  colours of grid and tooltip), \<open>scrollIntoView\<close> and \<open>console.error\<close>, which
  change nothing the script reads; the server (its answer is an input); the JSON values
  the server could send that are not an \<open>AnalysisResponse\<close> of strings and integers
  (\<open>null\<close>, arrays, a non-string \<open>error\<close>); sums of counts beyond \<open>2^53\<close>, where
  JavaScript's integer sums stop being exact (the model's are); the exponential form of
  \<open>toFixed\<close> at \<open>10^21\<close>, unreachable for the percentages (C11); Chart.js 2, where
  constructing on a canvas in use does not throw but leaks (C9 shows the script never
  does it). The server's decoder is modelled only for the object shape the script sends
  (\<open>{"text":...}\<close> without white space), which is all the round trip needs. No fuel or
  bound is needed: every loop of the script is over a finite list and every function of
  the model is total.

  \<^bold>\<open>Status.\<close> Every function and handler of script.js is modelled, each at the
  lines it translates; what remains outside is listed above and is not code of the
  repository (the server, the page template and styles, the Chart.js rendering) or has
  no effect on the state the script reads. The two charts' data and the table's rows come
  from two fields of the server's answer (\<open>chart_data\<close>, \<open>words_data\<close>) that the
  script never relates, so there is no property of the code relating them.
\<close>

text \<open>A one-word answer.\<close>

definition one_word_response :: analysis_response where
  "one_word_response = \<lparr>success = True, error = None, total_words = Some 1, unique_words = Some 1,
     chart_data = Some [\<lparr>word = js ''a'', count' = 1\<rparr>], words_data = Some [\<lparr>word = js ''a'', count' = 1\<rparr>]\<rparr>"

text \<open>An answer reporting the one word \<open>w\<close>, and a service error with message \<open>m\<close>.\<close>

definition word_response :: "jsstr \<Rightarrow> analysis_response" where
  "word_response w = \<lparr>success = True, error = None, total_words = Some 1, unique_words = Some 1,
     chart_data = Some [], words_data = Some [\<lparr>word = w, count' = 1\<rparr>]\<rparr>"

definition error_response :: "jsstr \<Rightarrow> analysis_response" where
  "error_response m = \<lparr>success = False, error = Some m, total_words = None, unique_words = None,
     chart_data = None, words_data = None\<rparr>"

lemmas run_eval = initial_page_def analyzeText_start_def
  analyzeText_settle_def displayResults_def displayStats_def displayCharts_def chart_new_def
  destroy_handle_def page_defs trim_eval Let_def remove_nth_def bar_config_def pie_config_def


text \<open>
  C15. With two requests pending, the first to settle hides the loading indicator while
  the second is still pending.
\<close>

theorem overlap_hides_loading:
  "\<exists>s. reachable s \<and> in_flight s \<noteq> [] \<and> \<not> loading_display s"
proof -
  have "case run initial_page [Input (js ''a''), Click_analyze, Click_analyze,
        Fetch_settled 0 Transport_failure] of
     None \<Rightarrow> False
   | Some s \<Rightarrow> in_flight s \<noteq> [] \<and> \<not> loading_display s"
    by (simp add: run_eval)
  then show ?thesis by (rule run_reaches [OF _ reachable.init])
qed

text \<open>
  C16. With two requests pending, a failure of the first and a success of the second
  leave the network error banner and the results visible together.
\<close>

theorem overlap_error_and_results:
  "\<exists>s. reachable s \<and> results_display s \<and> error_banners s = [error_html network_message]"
proof -
  have "case run initial_page [Input (js ''a''), Click_analyze, Click_analyze,
        Fetch_settled 0 Transport_failure, Fetch_settled 0 (Http_response True (Some one_word_response))] of
     None \<Rightarrow> False
   | Some s \<Rightarrow> results_display s \<and> error_banners s = [error_html network_message]"
    by (simp add: one_word_response_def run_eval)
  then show ?thesis by (rule run_reaches [OF _ reachable.init])
qed

text \<open>
  C17. An answer with \<open>success\<close> and \<open>chart_data\<close> but no \<open>words_data\<close> is
  partly rendered: the counters are written and both charts are replaced, then
  \<open>displayTable\<close> throws, and the handler reports the network message while the
  results panel and the table stay as they were.
\<close>

theorem missing_words_data_partial_render:
  assumes "chart_inv s" "success data" "chart_data data = Some cd" "words_data data = None"
  shows "map snd (live_charts (analyzeText_settle (Http_response True (Some data)) s)) =
      [bar_config (map word cd) (map count' cd) (generateColors (length cd)),
       pie_config (map word cd) (map count' cd) (generateColors (length cd))] \<and>
    stats_html (analyzeText_settle (Http_response True (Some data)) s) =
      [json_number_html (total_words data), json_number_html (unique_words data), decimal (length cd)] \<and>
    error_banners (analyzeText_settle (Http_response True (Some data)) s) =
      error_html network_message # drop 1 (error_banners s) \<and>
    results_display (analyzeText_settle (Http_response True (Some data)) s) = results_display s \<and>
    table_html (analyzeText_settle (Http_response True (Some data)) s) = table_html s"
proof -
  let ?s1 = "s\<lparr>stats_html := [json_number_html (total_words data),
                     json_number_html (unique_words data), decimal (length cd)]\<rparr>"
  have "chart_inv ?s1" using assms(1) by (simp add: chart_inv_def)
  note dc = displayCharts_result [OF this, of cd]
  show ?thesis
    using assms dc by (simp add: analyzeText_settle_def displayResults_def displayStats_def page_defs)
qed

theorem missing_words_data_partial_render_witness:
  "chart_inv initial_page \<and> success (one_word_response\<lparr>words_data := None\<rparr>) \<and>
   chart_data (one_word_response\<lparr>words_data := None\<rparr>) = Some [\<lparr>word = js ''a'', count' = 1\<rparr>] \<and>
   words_data (one_word_response\<lparr>words_data := None\<rparr>) = None \<and>
   error_banners (analyzeText_settle (Http_response True (Some (one_word_response\<lparr>words_data := None\<rparr>))) initial_page) =
     [error_html network_message] \<and>
   \<not> results_display (analyzeText_settle (Http_response True (Some (one_word_response\<lparr>words_data := None\<rparr>))) initial_page)"
proof -
  have h1: "chart_inv initial_page" by (simp add: chart_inv_def initial_page_def)
  have h2: "success (one_word_response\<lparr>words_data := None\<rparr>)"
    and h3: "chart_data (one_word_response\<lparr>words_data := None\<rparr>) = Some [\<lparr>word = js ''a'', count' = 1\<rparr>]"
    and h4: "words_data (one_word_response\<lparr>words_data := None\<rparr>) = None"
    by (simp_all add: one_word_response_def)
  show ?thesis
    using h1 h2 h3 h4 missing_words_data_partial_render [OF h1 h2 h3 h4]
    by (simp add: initial_page_def)
qed

text \<open>
  C24. The table writes the words of the server's answer into \<open>innerHTML\<close> without
  escaping: for every word \<open>w\<close>, markup included, some reachable page has the cell
  \<open><strong>w</strong>\<close> verbatim in its first table row.
\<close>

theorem word_markup_reaches_table:
  "\<exists>s. reachable s \<and> js ''<strong>'' @ w @ js ''</strong>'' \<in> set (hd (table_html s))"
proof -
  have "case run initial_page [Input (js ''a''), Click_analyze,
        Fetch_settled 0 (Http_response True (Some (word_response w)))] of
     None \<Rightarrow> False
   | Some s \<Rightarrow> js ''<strong>'' @ w @ js ''</strong>'' \<in> set (hd (table_html s))"
    by (simp add: word_response_def run_eval displayTable_def table_row_def js_sort_def)
  then show ?thesis by (rule run_reaches [OF _ reachable.init])
qed

text \<open>
  C25. \<open>showError\<close> writes the server's error message into \<open>innerHTML\<close> without
  escaping: for every non-empty message \<open>m\<close>, some reachable page shows the banner
  whose markup is the icon followed by \<open>m\<close> verbatim.
\<close>

theorem service_message_reaches_banner:
  assumes "m \<noteq> []"
  shows "\<exists>s. reachable s \<and> error_banners s = [js ''<i class=\"fas fa-exclamation-triangle\"></i> '' @ m]"
proof -
  have "case run initial_page [Input (js ''a''), Click_analyze,
        Fetch_settled 0 (Http_response False (Some (error_response m)))] of
     None \<Rightarrow> False
   | Some s \<Rightarrow> error_banners s = [js ''<i class=\"fas fa-exclamation-triangle\"></i> '' @ m]"
    using assms by (simp add: error_response_def run_eval error_or_fallback_def error_html_def)
  then show ?thesis by (rule run_reaches [OF _ reachable.init])
qed

theorem service_message_reaches_banner_witness:
  "js ''<img src=x onerror=alert(1)>'' \<noteq> [] \<and>
   (\<exists>s. reachable s \<and>
      error_banners s = [js ''<i class=\"fas fa-exclamation-triangle\"></i> '' @ js ''<img src=x onerror=alert(1)>''])"
  using service_message_reaches_banner [of "js ''<img src=x onerror=alert(1)>''"] by simp

end
